theory Spec2Isabelle
  imports Main "HOL-Library.Word"
begin

section \<open>Detritus: two-channel switch firmware (Detritus.ino)\<close>

text \<open>
  The sketch keeps all of its state in global variables and runs one cooperative control
  loop. The embedding below is a record of those globals, extended by the part of the
  outside world that the sketch drives and reads back (the two relay pins, the session
  status of the message-bus client, and logs of the calls made to the client and to the
  portal library), and one HOL function per C++ function that takes the state and returns
  the updated one.

  \<^item> \<open>unsigned long\<close> is 32 bits wide on the ESP8285: a \<open>32 word\<close>, whose subtraction
    wraps as the C++ subtraction of \<open>millis()\<close> readings does.
  \<^item> \<open>int\<close> is 32 bits wide: a \<open>32 word\<close> too, read as two's complement by \<open>sint\<close>;
    the only \<open>int\<close> variable is a counter that is incremented, reset and compared for
    equality, which on words is the same for the signed and the unsigned reading.
  \<^item> \<open>millis()\<close> is a parameter \<open>now\<close> of every function that reads the clock: the
    reading of the millisecond clock during that call.
  \<^item> The character buffers holding topics are modelled by the C strings they contain
    (\<open>string\<close>, without the terminating NUL); \<open>strcmp(a, b) == 0\<close> is then equality.
  \<^item> The connection credentials (server, port, client name, user, password), the status
    LED and its ticker are handed to libraries only and are left out of the state.
\<close>

type_synonym ulong = "32 word"

type_synonym cint = "32 word"

subsection \<open>Constants (lines 80-92)\<close>

definition CONFIG_TIMEOUT_MS :: ulong where
  "CONFIG_TIMEOUT_MS = 300000"

definition OTA_TIMEOUT_MS :: ulong where
  "OTA_TIMEOUT_MS = 300000"

definition MANUAL_SETUP_MAX_DELAY_MS :: ulong where
  "MANUAL_SETUP_MAX_DELAY_MS = 500"

definition MANUAL_SETUP_COUNTER :: cint where
  "MANUAL_SETUP_COUNTER = 5"

definition CMD_ON :: string where
  "CMD_ON = ''1''"

definition CMD_OFF :: string where
  "CMD_OFF = ''0''"

definition CMD_SETUP :: string where
  "CMD_SETUP = ''set''"

definition CMD_OTA :: string where
  "CMD_OTA = ''ota''"

definition CMD_RESET :: string where
  "CMD_RESET = ''rst''"

subsection \<open>The globals (lines 101-152) and the observed outside world\<close>

record state =
  mqttOutTopic1 :: string
  mqttInTopic1 :: string
  mqttOutTopic2 :: string
  mqttInTopic2 :: string
  offline :: bool
  wifiManagerSetupRunning :: bool
  wifiManagerSetupStart :: ulong
  otaRunning :: bool
  otaStart :: ulong
  restart :: bool
  mqttConnectAttempt :: ulong
  mqttConnectDelay :: ulong
  swapRelays :: bool
  invertSwitch :: bool
  respectSwitchState :: bool
  s1State :: bool
  s2State :: bool
  l1State :: bool
  l2State :: bool
  manualSetupActivatorTime :: ulong
  manualSetupModeCounter :: cint
  pinRelayL1 :: bool
  pinRelayL2 :: bool
  mqttConnected :: bool
  published :: "(string \<times> string \<times> bool) list"
  subscribed :: "string list"
  connectCalls :: nat
  portalStarts :: nat

text \<open>
  \<open>pinRelayL1\<close> and \<open>pinRelayL2\<close> are the levels last written to the relay pins
  (\<open>True\<close> for HIGH). \<open>mqttConnected\<close> is what \<open>mqttClient.connected()\<close> returns.
  \<open>published\<close> lists the calls of \<open>mqttClient.publish(topic, payload, retained)\<close> in
  order, \<open>subscribed\<close> the calls of \<open>mqttClient.subscribe\<close>; \<open>connectCalls\<close> counts
  the calls of \<open>mqttClient.connect\<close> and \<open>portalStarts\<close> those of
  \<open>wifiManager.startConfigPortal\<close>.
\<close>

subsection \<open>C strings\<close>

definition NUL :: char where
  "NUL = CHR 0x00"

text \<open>The string a \<open>char\<close> buffer holds: the characters before the first NUL.\<close>

definition c_str :: "char list \<Rightarrow> string" where
  "c_str buf = takeWhile (\<lambda>c. c \<noteq> NUL) buf"

text \<open>Arduino's \<open>String::startsWith\<close>.\<close>

definition startsWith :: "string \<Rightarrow> string \<Rightarrow> bool" where
  "startsWith str p = (take (length p) str = p)"

subsection \<open>Status publisher: \<open>mqttCommunicate\<close> (lines 587-625)\<close>

definition publish :: "string \<Rightarrow> string \<Rightarrow> bool \<Rightarrow> state \<Rightarrow> state" where
  "publish topic payload retained s =
     s\<lparr>published := published s @ [(topic, payload, retained)]\<rparr>"

definition mqttCommunicate :: "bool \<Rightarrow> state \<Rightarrow> state" where
  "mqttCommunicate l1Report s =
     (if \<not> offline s \<and> mqttConnected s then
        (if l1Report then
           (let m0 = (if l1State s then CHR ''1'' else CHR ''0'');
                m1 = (if swapRelays s then
                        (if invertSwitch s then (if s2State s then NUL else CHR ''.'')
                         else (if s2State s then CHR ''.'' else NUL))
                      else
                        (if invertSwitch s then (if s1State s then NUL else CHR ''.'')
                         else (if s1State s then CHR ''.'' else NUL)))
            in publish (mqttOutTopic1 s) (c_str [m0, m1, NUL]) True s)
         else
           (let m0 = (if l2State s then CHR ''1'' else CHR ''0'');
                m1 = (if swapRelays s then
                        (if invertSwitch s then (if s1State s then NUL else CHR ''.'')
                         else (if s1State s then CHR ''.'' else NUL))
                      else
                        (if invertSwitch s then (if s2State s then NUL else CHR ''.'')
                         else (if s2State s then CHR ''.'' else NUL)))
            in publish (mqttOutTopic2 s) (c_str [m0, m1, NUL]) True s))
      else s)"

subsection \<open>Relay actions (lines 553-575)\<close>

definition enableL1 :: "state \<Rightarrow> state" where
  "enableL1 s = mqttCommunicate True (s\<lparr>pinRelayL1 := True, l1State := True\<rparr>)"

definition enableL2 :: "state \<Rightarrow> state" where
  "enableL2 s = mqttCommunicate False (s\<lparr>pinRelayL2 := True, l2State := True\<rparr>)"

definition disableL1 :: "state \<Rightarrow> state" where
  "disableL1 s = mqttCommunicate True (s\<lparr>pinRelayL1 := False, l1State := False\<rparr>)"

definition disableL2 :: "state \<Rightarrow> state" where
  "disableL2 s = mqttCommunicate False (s\<lparr>pinRelayL2 := False, l2State := False\<rparr>)"

subsection \<open>Configuration portal (lines 404-551)\<close>

text \<open>
  The portal itself is the WiFiManager library. Two facts about it are used: when
  \<open>startConfigPortal\<close> (or \<open>autoConnect\<close>, when it has to) opens the access point, it
  calls the function registered by \<open>setAPCallback\<close>, here \<open>wifiManagerSetupStarted\<close>;
  and when the user saves the form, \<open>process\<close> calls the function registered by
  \<open>setSaveParamsCallback\<close>, here \<open>saveParamsCallback\<close>.
\<close>

definition wifiManagerSetupStarted :: "ulong \<Rightarrow> state \<Rightarrow> state" where
  "wifiManagerSetupStarted now s =
     s\<lparr>wifiManagerSetupRunning := True, wifiManagerSetupStart := now\<rparr>"

definition wifiManagerSetupStopped :: "state \<Rightarrow> state" where
  "wifiManagerSetupStopped s = s\<lparr>restart := True\<rparr>"

text \<open>The values of the form fields that \<open>saveParamsCallback\<close> reads.\<close>

record params =
  form_mqtt_out_topic1 :: string
  form_mqtt_in_topic1 :: string
  form_mqtt_out_topic2 :: string
  form_mqtt_in_topic2 :: string
  form_swap_relays :: string
  form_respect_switch :: string
  form_invert_switch :: string

definition saveParamsCallback :: "params \<Rightarrow> state \<Rightarrow> state" where
  "saveParamsCallback p s =
     wifiManagerSetupStopped
       (s\<lparr>mqttOutTopic1 := form_mqtt_out_topic1 p,
          mqttInTopic1 := form_mqtt_in_topic1 p,
          mqttOutTopic2 := form_mqtt_out_topic2 p,
          mqttInTopic2 := form_mqtt_in_topic2 p,
          swapRelays := (form_swap_relays p = ''true''),
          respectSwitchState := (form_respect_switch p = ''true''),
          invertSwitch := (form_invert_switch p = ''true'')\<rparr>)"

text \<open>
  Reading \<open>/config.json\<close> at boot (lines 471-499): a key overwrites the built-in value
  when it is present with a non-empty value.
\<close>

definition json_str :: "(string \<rightharpoonup> string) \<Rightarrow> string \<Rightarrow> string \<Rightarrow> string" where
  "json_str json key old =
     (case json key of Some v \<Rightarrow> (if length v > 0 then v else old) | None \<Rightarrow> old)"

definition json_flag :: "(string \<rightharpoonup> string) \<Rightarrow> string \<Rightarrow> bool \<Rightarrow> bool" where
  "json_flag json key old =
     (case json key of Some v \<Rightarrow> (if length v > 0 then v = ''true'' else old) | None \<Rightarrow> old)"

definition loadConfig :: "(string \<rightharpoonup> string) \<Rightarrow> state \<Rightarrow> state" where
  "loadConfig json s =
     s\<lparr>mqttOutTopic1 := json_str json ''mqtt_out_topic1'' (mqttOutTopic1 s),
       mqttInTopic1 := json_str json ''mqtt_in_topic1'' (mqttInTopic1 s),
       mqttOutTopic2 := json_str json ''mqtt_out_topic2'' (mqttOutTopic2 s),
       mqttInTopic2 := json_str json ''mqtt_in_topic2'' (mqttInTopic2 s),
       swapRelays := json_flag json ''swap_relays'' (swapRelays s),
       respectSwitchState := json_flag json ''respect_switch_state'' (respectSwitchState s),
       invertSwitch := json_flag json ''invert_switch'' (invertSwitch s)\<rparr>"

definition startConfigPortal :: "ulong \<Rightarrow> state \<Rightarrow> state" where
  "startConfigPortal now s =
     wifiManagerSetupStarted now (s\<lparr>portalStarts := portalStarts s + 1\<rparr>)"

definition autoConnect :: "bool \<Rightarrow> ulong \<Rightarrow> state \<Rightarrow> state" where
  "autoConnect openPortal now s = (if openPortal then wifiManagerSetupStarted now s else s)"

text \<open>
  \<open>startWifiManager(onDemand)\<close>. The boot path (\<open>onDemand\<close> false) reads the stored
  configuration \<open>stored\<close> (\<open>None\<close> when the file is missing or unreadable) and lets
  \<open>autoConnect\<close> decide whether to open the portal (\<open>openPortal\<close>); neither argument is
  read when \<open>onDemand\<close> is true.
\<close>

definition startWifiManager ::
    "bool \<Rightarrow> (string \<rightharpoonup> string) option \<Rightarrow> bool \<Rightarrow> ulong \<Rightarrow> state \<Rightarrow> state" where
  "startWifiManager onDemand stored openPortal now s =
     (if wifiManagerSetupRunning s then s
      else
        (let sa = (if \<not> onDemand
                   then (case stored of Some json \<Rightarrow> loadConfig json s | None \<Rightarrow> s)
                   else s)
         in if onDemand then startConfigPortal now sa else autoConnect openPortal now sa))"

subsection \<open>Input sampler, relay decision engine and setup gesture: \<open>gpioLoop\<close> (lines 223-364)\<close>

text \<open>Lines 256-302: the action taken when switch 1 changed.\<close>

definition s1ChangedAction :: "state \<Rightarrow> state" where
  "s1ChangedAction s =
     (if respectSwitchState s then
        (if swapRelays s then
           (if invertSwitch s then (if s1State s then disableL2 s else enableL2 s)
            else (if s1State s then enableL2 s else disableL2 s))
         else
           (if invertSwitch s then (if s1State s then disableL1 s else enableL1 s)
            else (if s1State s then enableL1 s else disableL1 s)))
      else
        (if swapRelays s then (if l2State s then disableL2 s else enableL2 s)
         else (if l1State s then disableL1 s else enableL1 s)))"

text \<open>Lines 304-350: the action taken when switch 2 changed.\<close>

definition s2ChangedAction :: "state \<Rightarrow> state" where
  "s2ChangedAction s =
     (if respectSwitchState s then
        (if swapRelays s then
           (if invertSwitch s then (if s2State s then disableL1 s else enableL1 s)
            else (if s2State s then enableL1 s else disableL1 s))
         else
           (if invertSwitch s then (if s2State s then disableL2 s else enableL2 s)
            else (if s2State s then enableL2 s else disableL2 s)))
      else
        (if swapRelays s then (if l1State s then disableL1 s else enableL1 s)
         else (if l2State s then disableL2 s else enableL2 s)))"

text \<open>Lines 352-362: the body run when either switch changed.\<close>

definition manualSetupStep :: "ulong \<Rightarrow> state \<Rightarrow> state" where
  "manualSetupStep now s =
     (let manualSetupActivatorDelay = now - manualSetupActivatorTime s;
          sa = (if manualSetupActivatorDelay < MANUAL_SETUP_MAX_DELAY_MS then
                  (let sb = s\<lparr>manualSetupModeCounter := manualSetupModeCounter s + 1\<rparr>
                   in if manualSetupModeCounter sb = MANUAL_SETUP_COUNTER
                      then startWifiManager True None False now sb else sb)
                else s\<lparr>manualSetupModeCounter := 0\<rparr>)
      in sa\<lparr>manualSetupActivatorTime := now\<rparr>)"

text \<open>
  \<open>buttonLow\<close>, \<open>s1Low\<close> and \<open>s2Low\<close> are the results of
  \<open>digitalRead(BUTTON) == LOW\<close>, \<open>digitalRead(SWITCH_S1) == LOW\<close> and
  \<open>digitalRead(SWITCH_S2) == LOW\<close>.
\<close>

definition gpioLoop :: "ulong \<Rightarrow> bool \<Rightarrow> bool \<Rightarrow> bool \<Rightarrow> state \<Rightarrow> state" where
  "gpioLoop now buttonLow s1Low s2Low s =
     (let sa = (if buttonLow then startWifiManager True None False now s else s);
          s1Changed = (if s1Low then s1State sa = False else s1State sa = True);
          sb = (if s1Low then sa\<lparr>s1State := True\<rparr> else sa\<lparr>s1State := False\<rparr>);
          s2Changed = (if s2Low then s2State sb = False else s2State sb = True);
          sc = (if s2Low then sb\<lparr>s2State := True\<rparr> else sb\<lparr>s2State := False\<rparr>);
          sd = (if s1Changed then s1ChangedAction sc else sc);
          se = (if s2Changed then s2ChangedAction sd else sd)
      in if s1Changed \<or> s2Changed then manualSetupStep now se else se)"

subsection \<open>Command dispatcher: \<open>mqttCallback\<close> (lines 627-666)\<close>

text \<open>
  Lines 629-634: at most nine bytes of the payload are copied by \<open>strncpy\<close>, which stops
  at a NUL byte, and the copy is read back as a C string.
\<close>

definition payloadCopy :: "string \<Rightarrow> string" where
  "payloadCopy payload = c_str (take (min (length payload) 9) payload @ [NUL])"

definition mqttCallback :: "ulong \<Rightarrow> string \<Rightarrow> string \<Rightarrow> state \<Rightarrow> state" where
  "mqttCallback now topic payload s =
     (let cmd = payloadCopy payload;
          sa = (if startsWith cmd CMD_SETUP then startWifiManager True None False now s else s);
          sb = (if startsWith cmd CMD_RESET then sa\<lparr>restart := True\<rparr> else sa);
          sc = (if startsWith cmd CMD_OTA then sb\<lparr>otaStart := now, otaRunning := True\<rparr> else sb)
      in if topic = mqttInTopic1 sc then
           (let sd = (if startsWith cmd CMD_ON then enableL1 sc else sc)
            in if startsWith cmd CMD_OFF then disableL1 sd else sd)
         else if topic = mqttInTopic2 sc then
           (let sd = (if startsWith cmd CMD_ON then enableL2 sc else sc)
            in if startsWith cmd CMD_OFF then disableL2 sd else sd)
         else sc)"

subsection \<open>Broker connection manager: \<open>mqttReconnect\<close> and \<open>mqttLoop\<close> (lines 578-585, 668-687)\<close>

text \<open>\<open>connectOk\<close> is the result of \<open>mqttClient.connect\<close>, should it be called.\<close>

definition mqttReconnect :: "ulong \<Rightarrow> bool \<Rightarrow> state \<Rightarrow> bool \<times> state" where
  "mqttReconnect now connectOk s =
     (if \<not> mqttConnected s then
        (if now - mqttConnectAttempt s > mqttConnectDelay s then
           (let sa = s\<lparr>mqttConnectDelay := mqttConnectDelay s + 1000\<rparr>;
                sb = (if mqttConnectDelay sa > 60000 then sa\<lparr>mqttConnectDelay := 60000\<rparr> else sa);
                sc = sb\<lparr>mqttConnectAttempt := now\<rparr>;
                sd = sc\<lparr>connectCalls := connectCalls sc + 1, mqttConnected := connectOk\<rparr>
            in if connectOk then
                 (True, sd\<lparr>subscribed := subscribed sd @ [mqttInTopic1 sd, mqttInTopic2 sd],
                           mqttConnectDelay := 0\<rparr>)
               else (False, sd))
         else (False, s))
      else (False, s))"

text \<open>
  \<open>mqttClient.loop()\<close> hands an inbound message (topic, payload), if one has arrived, to
  the registered callback \<open>mqttCallback\<close>.
\<close>

definition mqttClientLoop :: "ulong \<Rightarrow> (string \<times> string) option \<Rightarrow> state \<Rightarrow> state" where
  "mqttClientLoop now inbound s =
     (case inbound of None \<Rightarrow> s | Some (topic, payload) \<Rightarrow> mqttCallback now topic payload s)"

definition mqttLoop :: "ulong \<Rightarrow> bool \<Rightarrow> (string \<times> string) option \<Rightarrow> state \<Rightarrow> state" where
  "mqttLoop now connectOk inbound s =
     (if \<not> mqttConnected s then
        (let (ok, sa) = mqttReconnect now connectOk s
         in if \<not> ok then sa else mqttClientLoop now inbound sa)
      else mqttClientLoop now inbound s)"

subsection \<open>\<open>wifimanagerLoop\<close> (lines 366-396)\<close>

text \<open>
  \<open>saved\<close> is the form that \<open>wifiManager.process()\<close> hands to \<open>saveParamsCallback\<close> in
  this cycle, if any; \<open>wifiUp\<close> is \<open>WiFi.status() == WL_CONNECTED\<close>.
\<close>

definition wifimanagerLoop :: "ulong \<Rightarrow> params option \<Rightarrow> bool \<Rightarrow> state \<Rightarrow> state" where
  "wifimanagerLoop now saved wifiUp s =
     (let sa = (case saved of None \<Rightarrow> s | Some p \<Rightarrow> saveParamsCallback p s);
          sb = (if wifiManagerSetupRunning sa then
                  (if now - wifiManagerSetupStart sa > CONFIG_TIMEOUT_MS
                   then wifiManagerSetupStopped sa else sa)
                else sa)
      in if wifiUp then sb\<lparr>offline := False\<rparr> else sb\<lparr>offline := True\<rparr>)"

subsection \<open>Mode controller: boot and \<open>loop\<close> (lines 156-221)\<close>

text \<open>
  What one pass of \<open>loop\<close> reads from the outside world: the clock (all readings of
  one pass return \<open>millis\<close>), the three input pins (\<open>True\<close> for LOW), the form saved
  in the portal, the WiFi status, the result of a connect attempt, and \<open>inboundMsg\<close>,
  the message (topic, payload) that has arrived from the broker, if any, and that
  \<open>mqttClient.loop()\<close> hands to the callback when the pass runs it. \<open>linkLost\<close> says
  that the broker session broke since the previous pass, so that
  \<open>mqttClient.connected()\<close> is false from the start of this one. The update handler
  \<open>ArduinoOTA.handle()\<close> is library code that touches none of the globals.
\<close>

record cycle =
  millis :: ulong
  buttonPin :: bool
  switch1Pin :: bool
  switch2Pin :: bool
  portalSave :: "params option"
  wifiStatus :: bool
  connectResult :: bool
  inboundMsg :: "(string \<times> string) option"
  linkLost :: bool

text \<open>\<open>Restarted\<close>: the pass ended in \<open>ESP.restart()\<close>.\<close>

datatype outcome = Running state | Restarted state

definition loop :: "cycle \<Rightarrow> state \<Rightarrow> outcome" where
  "loop c s0 =
     (let s = (if linkLost c then s0\<lparr>mqttConnected := False\<rparr> else s0);
          s' = (if otaRunning s then
                  (if millis c - otaStart s > OTA_TIMEOUT_MS then s\<lparr>restart := True\<rparr> else s)
                else
                  (let sa = gpioLoop (millis c) (buttonPin c) (switch1Pin c) (switch2Pin c) s;
                       sb = wifimanagerLoop (millis c) (portalSave c) (wifiStatus c) sa
                   in if \<not> offline sb
                      then mqttLoop (millis c) (connectResult c) (inboundMsg c) sb else sb))
      in if restart s' then Restarted s' else Running s')"

text \<open>The globals as the C++ static initialisers leave them (zero where there is none).\<close>

definition power_on :: state where
  "power_on =
     \<lparr>mqttOutTopic1 = ''ibnhouse/light/kitchen/sta1'',
      mqttInTopic1 = ''ibnhouse/light/kitchen/cmd1'',
      mqttOutTopic2 = ''ibnhouse/light/kitchen/sta2'',
      mqttInTopic2 = ''ibnhouse/light/kitchen/cmd2'',
      offline = True,
      wifiManagerSetupRunning = False,
      wifiManagerSetupStart = 0,
      otaRunning = False,
      otaStart = 0,
      restart = False,
      mqttConnectAttempt = 0,
      mqttConnectDelay = 0,
      swapRelays = False,
      invertSwitch = False,
      respectSwitchState = True,
      s1State = False,
      s2State = False,
      l1State = False,
      l2State = False,
      manualSetupActivatorTime = 0,
      manualSetupModeCounter = 0,
      pinRelayL1 = False,
      pinRelayL2 = False,
      mqttConnected = False,
      published = [],
      subscribed = [],
      connectCalls = 0,
      portalStarts = 0\<rparr>"

text \<open>
  The boot function of the sketch (lines 156-191), named \<open>setup\<close> there: it samples
  the two switches, clears the gesture counter and calls \<open>startWifiManager(false)\<close>.
\<close>

definition setup_boot ::
    "bool \<Rightarrow> bool \<Rightarrow> (string \<rightharpoonup> string) option \<Rightarrow> bool \<Rightarrow> ulong \<Rightarrow> state \<Rightarrow> state" where
  "setup_boot s1Low s2Low stored openPortal now s =
     startWifiManager False stored openPortal now
       (s\<lparr>s1State := s1Low, s2State := s2Low, manualSetupModeCounter := 0\<rparr>)"

subsection \<open>Vocabulary for stating the properties\<close>

text \<open>
  Channels are named by a flag: \<open>True\<close> for channel 1 (relay L1), \<open>False\<close> for
  channel 2 (relay L2).
\<close>

definition relayOf :: "bool \<Rightarrow> state \<Rightarrow> bool" where
  "relayOf ch s = (if ch then l1State s else l2State s)"

definition pinOf :: "bool \<Rightarrow> state \<Rightarrow> bool" where
  "pinOf ch s = (if ch then pinRelayL1 s else pinRelayL2 s)"

definition outTopicOf :: "bool \<Rightarrow> state \<Rightarrow> string" where
  "outTopicOf ch s = (if ch then mqttOutTopic1 s else mqttOutTopic2 s)"

text \<open>The bus connection is up: the condition under which \<open>mqttCommunicate\<close> publishes.\<close>

definition linkUp :: "state \<Rightarrow> bool" where
  "linkUp s = (\<not> offline s \<and> mqttConnected s)"

text \<open>
  The switch wired to a channel: switch 1 for channel 1 and switch 2 for channel 2, crossed
  when \<open>swapRelays\<close> is set.
\<close>

definition mappedSwitch :: "bool \<Rightarrow> state \<Rightarrow> bool" where
  "mappedSwitch ch s = (if ch = swapRelays s then s2State s else s1State s)"

text \<open>
  The status payload as the specification words it: \<open>1\<close> or \<open>0\<close> for the relay, then a
  dot exactly when the switch is pressed, the condition flipped by the inversion flag.
\<close>

definition spec_payload :: "bool \<Rightarrow> bool \<Rightarrow> bool \<Rightarrow> string" where
  "spec_payload energized pressed invert =
     (if energized then ''1'' else ''0'') @ (if pressed \<noteq> invert then ''.'' else [])"

definition statusOf :: "bool \<Rightarrow> state \<Rightarrow> string \<times> string \<times> bool" where
  "statusOf ch s =
     (outTopicOf ch s, spec_payload (relayOf ch s) (mappedSwitch ch s) (invertSwitch s), True)"

text \<open>
  The channel a topic addresses, following the \<open>if\<close> / \<open>else if\<close> of \<open>mqttCallback\<close>
  (lines 650-664).
\<close>

definition addressed :: "string \<Rightarrow> state \<Rightarrow> bool option" where
  "addressed topic s =
     (if topic = mqttInTopic1 s then Some True
      else if topic = mqttInTopic2 s then Some False
      else None)"

definition stateOf :: "outcome \<Rightarrow> state" where
  "stateOf r = (case r of Running s \<Rightarrow> s | Restarted s \<Rightarrow> s)"

text \<open>
  The states the control loop can be in: the state after boot, and the state after any
  pass that did not end in a restart.
\<close>

inductive reachable :: "state \<Rightarrow> bool" where
  boot: "reachable (setup_boot s1Low s2Low stored openPortal now power_on)"
| pass: "reachable s \<Longrightarrow> loop c s = Running s' \<Longrightarrow> reachable s'"

text \<open>
  A device booted at time 0 with both switches released, no stored configuration and
  known WiFi credentials (so that no portal is opened).
\<close>

definition booted :: state where
  "booted = setup_boot False False None False 0 power_on"




text \<open>A pass in which nothing happens but the clock reading \<open>t\<close>, WiFi being up.\<close>

definition quiet :: "ulong \<Rightarrow> cycle" where
  "quiet t =
     \<lparr>millis = t, buttonPin = False, switch1Pin = False, switch2Pin = False,
      portalSave = None, wifiStatus = True, connectResult = True, inboundMsg = None,
      linkLost = False\<rparr>"

text \<open>
  The booted device after one quiet pass at time 100: WiFi is up and the broker session
  is established.
\<close>

definition online :: state where
  "online = stateOf (loop (quiet 100) booted)"

text \<open>
  The online device is sent \<open>set\<close> in the pass at time 200 and \<open>ota\<close> in the pass at
  time 300, both on the command topic of channel 1.
\<close>

definition portal_opened :: state where
  "portal_opened =
     stateOf (loop ((quiet 200)\<lparr>inboundMsg := Some (''ibnhouse/light/kitchen/cmd1'', ''set'')\<rparr>)
                online)"

definition portal_and_update :: state where
  "portal_and_update =
     stateOf (loop ((quiet 300)\<lparr>inboundMsg := Some (''ibnhouse/light/kitchen/cmd1'', ''ota'')\<rparr>)
                portal_opened)"

text \<open>The online device is sent \<open>ota\<close> in the pass at time 200.\<close>

definition update_mode :: state where
  "update_mode =
     stateOf (loop ((quiet 200)\<lparr>inboundMsg := Some (''ibnhouse/light/kitchen/cmd1'', ''ota'')\<rparr>)
                online)"

text \<open>Energizing or de-energizing a channel's relay through the four relay actions.\<close>

definition setRelay :: "bool \<Rightarrow> bool \<Rightarrow> state \<Rightarrow> state" where
  "setRelay ch v s =
     (if ch then (if v then enableL1 s else disableL1 s)
      else (if v then enableL2 s else disableL2 s))"

section \<open>Basic facts\<close>

subsection \<open>What each function does to the state\<close>

lemma mqttCommunicate_eq:
  "mqttCommunicate ch s =
     s\<lparr>published := published s @ (if linkUp s then [statusOf ch s] else [])\<rparr>"
  by (simp add: mqttCommunicate_def publish_def c_str_def NUL_def statusOf_def spec_payload_def
      mappedSwitch_def relayOf_def outTopicOf_def linkUp_def)

lemma relay_action_eq:
  "enableL1 s = mqttCommunicate True (s\<lparr>pinRelayL1 := True, l1State := True\<rparr>)"
  "disableL1 s = mqttCommunicate True (s\<lparr>pinRelayL1 := False, l1State := False\<rparr>)"
  "enableL2 s = mqttCommunicate False (s\<lparr>pinRelayL2 := True, l2State := True\<rparr>)"
  "disableL2 s = mqttCommunicate False (s\<lparr>pinRelayL2 := False, l2State := False\<rparr>)"
  by (simp_all add: enableL1_def disableL1_def enableL2_def disableL2_def)

lemma startWifiManager_onDemand:
  "startWifiManager True stored openPortal now s =
     s\<lparr>portalStarts := (if wifiManagerSetupRunning s then portalStarts s else portalStarts s + 1),
       wifiManagerSetupRunning := True,
       wifiManagerSetupStart := (if wifiManagerSetupRunning s then wifiManagerSetupStart s else now)\<rparr>"
  by (simp add: startWifiManager_def startConfigPortal_def wifiManagerSetupStarted_def)

lemma manualSetupStep_eq:
  "manualSetupStep now s =
     (let quick = (now - manualSetupActivatorTime s < 500);
          fire = (quick \<and> manualSetupModeCounter s + 1 = 5)
      in s\<lparr>manualSetupModeCounter := (if quick then manualSetupModeCounter s + 1 else 0),
           portalStarts := (if fire \<and> \<not> wifiManagerSetupRunning s
                            then portalStarts s + 1 else portalStarts s),
           wifiManagerSetupRunning := (fire \<or> wifiManagerSetupRunning s),
           wifiManagerSetupStart := (if fire \<and> \<not> wifiManagerSetupRunning s
                                     then now else wifiManagerSetupStart s),
           manualSetupActivatorTime := now\<rparr>)"
  by (simp add: manualSetupStep_def Let_def startWifiManager_onDemand
      MANUAL_SETUP_MAX_DELAY_MS_def MANUAL_SETUP_COUNTER_def)

lemma gpioLoop_eq:
  "gpioLoop now buttonLow s1Low s2Low s =
    (let sa = (if buttonLow then startWifiManager True None False now s else s);
         sc = sa\<lparr>s1State := s1Low, s2State := s2Low\<rparr>;
         sd = (if s1Low \<noteq> s1State s then s1ChangedAction sc else sc);
         se = (if s2Low \<noteq> s2State s then s2ChangedAction sd else sd)
     in if s1Low \<noteq> s1State s \<or> s2Low \<noteq> s2State s then manualSetupStep now se else se)"
  by (cases buttonLow; cases s1Low; cases s2Low)
     (simp_all add: gpioLoop_def Let_def startWifiManager_onDemand)

lemma s1ChangedAction_eq:
  "s1ChangedAction s =
     (let v = (if respectSwitchState s then s1State s \<noteq> invertSwitch s
               else \<not> relayOf (\<not> swapRelays s) s)
      in if swapRelays s
         then mqttCommunicate False (s\<lparr>pinRelayL2 := v, l2State := v\<rparr>)
         else mqttCommunicate True (s\<lparr>pinRelayL1 := v, l1State := v\<rparr>))"
  by (simp add: s1ChangedAction_def relay_action_eq relayOf_def)

lemma s2ChangedAction_eq:
  "s2ChangedAction s =
     (let v = (if respectSwitchState s then s2State s \<noteq> invertSwitch s
               else \<not> relayOf (swapRelays s) s)
      in if swapRelays s
         then mqttCommunicate True (s\<lparr>pinRelayL1 := v, l1State := v\<rparr>)
         else mqttCommunicate False (s\<lparr>pinRelayL2 := v, l2State := v\<rparr>))"
  by (simp add: s2ChangedAction_def relay_action_eq relayOf_def)

lemma changedAction_fields:
  "s1State (s1ChangedAction s) = s1State s"
  "s2State (s1ChangedAction s) = s2State s"
  "s1State (s2ChangedAction s) = s1State s"
  "s2State (s2ChangedAction s) = s2State s"
  "swapRelays (s1ChangedAction s) = swapRelays s"
  "invertSwitch (s1ChangedAction s) = invertSwitch s"
  "respectSwitchState (s1ChangedAction s) = respectSwitchState s"
  by (simp_all add: s1ChangedAction_eq s2ChangedAction_eq mqttCommunicate_eq Let_def)

lemma s1ChangedAction_relays:
  "relayOf ch (s1ChangedAction s) =
     (if ch = swapRelays s then relayOf ch s
      else if respectSwitchState s then s1State s \<noteq> invertSwitch s else \<not> relayOf ch s)"
  "pinOf ch (s1ChangedAction s) =
     (if ch = swapRelays s then pinOf ch s
      else if respectSwitchState s then s1State s \<noteq> invertSwitch s else \<not> relayOf ch s)"
  by (cases ch; simp add: s1ChangedAction_eq mqttCommunicate_eq Let_def relayOf_def pinOf_def)+

lemma s2ChangedAction_relays:
  "relayOf ch (s2ChangedAction s) =
     (if ch \<noteq> swapRelays s then relayOf ch s
      else if respectSwitchState s then s2State s \<noteq> invertSwitch s else \<not> relayOf ch s)"
  "pinOf ch (s2ChangedAction s) =
     (if ch \<noteq> swapRelays s then pinOf ch s
      else if respectSwitchState s then s2State s \<noteq> invertSwitch s else \<not> relayOf ch s)"
  by (cases ch; simp add: s2ChangedAction_eq mqttCommunicate_eq Let_def relayOf_def pinOf_def)+

lemma relayOf_updates:
  "relayOf ch (manualSetupStep now s) = relayOf ch s"
  "pinOf ch (manualSetupStep now s) = pinOf ch s"
  "relayOf ch (startWifiManager True stored openPortal now s) = relayOf ch s"
  "pinOf ch (startWifiManager True stored openPortal now s) = pinOf ch s"
  "relayOf ch (s\<lparr>s1State := a, s2State := b\<rparr>) = relayOf ch s"
  "pinOf ch (s\<lparr>s1State := a, s2State := b\<rparr>) = pinOf ch s"
  by (simp_all add: relayOf_def pinOf_def manualSetupStep_eq startWifiManager_onDemand Let_def)


lemma startWifiManager_frame:
  "s1State (startWifiManager True stored openPortal now s) = s1State s"
  "s2State (startWifiManager True stored openPortal now s) = s2State s"
  "swapRelays (startWifiManager True stored openPortal now s) = swapRelays s"
  "invertSwitch (startWifiManager True stored openPortal now s) = invertSwitch s"
  "respectSwitchState (startWifiManager True stored openPortal now s) = respectSwitchState s"
  "published (startWifiManager True stored openPortal now s) = published s"
  "linkUp (startWifiManager True stored openPortal now s) = linkUp s"
  by (simp_all add: startWifiManager_onDemand linkUp_def)

lemma manualSetupStep_frame:
  "s1State (manualSetupStep now s) = s1State s"
  "s2State (manualSetupStep now s) = s2State s"
  "swapRelays (manualSetupStep now s) = swapRelays s"
  "invertSwitch (manualSetupStep now s) = invertSwitch s"
  "respectSwitchState (manualSetupStep now s) = respectSwitchState s"
  "published (manualSetupStep now s) = published s"
  "linkUp (manualSetupStep now s) = linkUp s"
  by (simp_all add: manualSetupStep_eq Let_def linkUp_def)

lemma gpioLoop_relayOf:
  "relayOf ch (gpioLoop now buttonLow s1Low s2Low s) =
     (if ch \<noteq> swapRelays s then
        (if s1Low \<noteq> s1State s then
           (if respectSwitchState s then s1Low \<noteq> invertSwitch s else \<not> relayOf ch s)
         else relayOf ch s)
      else
        (if s2Low \<noteq> s2State s then
           (if respectSwitchState s then s2Low \<noteq> invertSwitch s else \<not> relayOf ch s)
         else relayOf ch s))"
proof -
  define sa where "sa = (if buttonLow then startWifiManager True None False now s else s)"
  define sc where "sc = sa\<lparr>s1State := s1Low, s2State := s2Low\<rparr>"
  define sd where "sd = (if s1Low \<noteq> s1State s then s1ChangedAction sc else sc)"
  define se where "se = (if s2Low \<noteq> s2State s then s2ChangedAction sd else sd)"
  have sc: "relayOf c sc = relayOf c s" "s1State sc = s1Low" "s2State sc = s2Low"
    "swapRelays sc = swapRelays s" "invertSwitch sc = invertSwitch s"
    "respectSwitchState sc = respectSwitchState s" for c
    by (simp_all add: sc_def sa_def relayOf_updates startWifiManager_frame)
  have sd: "relayOf c sd =
      (if c \<noteq> swapRelays s \<and> s1Low \<noteq> s1State s
       then (if respectSwitchState s then s1Low \<noteq> invertSwitch s else \<not> relayOf c s)
       else relayOf c s)"
    "s2State sd = s2Low" "swapRelays sd = swapRelays s" "invertSwitch sd = invertSwitch s"
    "respectSwitchState sd = respectSwitchState s" for c
    by (simp_all add: sd_def sc s1ChangedAction_relays changedAction_fields)
  have se: "relayOf c se =
      (if c \<noteq> swapRelays s then relayOf c sd
       else if s2Low \<noteq> s2State s
         then (if respectSwitchState s then s2Low \<noteq> invertSwitch s else \<not> relayOf c sd)
         else relayOf c sd)" for c
    by (simp add: se_def sd(2-) s2ChangedAction_relays)
  have "relayOf ch (gpioLoop now buttonLow s1Low s2Low s) = relayOf ch se"
    unfolding gpioLoop_eq by (simp add: Let_def relayOf_updates sa_def sc_def sd_def se_def)
  then show ?thesis
    by (simp add: se sd(1))
qed

lemma gpioLoop_switches:
  "s1State (gpioLoop now buttonLow s1Low s2Low s) = s1Low"
  "s2State (gpioLoop now buttonLow s1Low s2Low s) = s2Low"
  unfolding gpioLoop_eq
  by (simp_all add: Let_def manualSetupStep_frame changedAction_fields)

lemma booted_eq: "booted = power_on"
  by (simp add: booted_def setup_boot_def startWifiManager_def autoConnect_def power_on_def)

subsection \<open>Status publisher\<close>

text \<open>
  Claim C4. Whenever the bus connection is up, \<open>mqttCommunicate\<close> publishes, retained
  and on the channel's output topic, a payload of one or two characters: \<open>1\<close> when the
  channel's relay is energized and \<open>0\<close> otherwise, followed by a dot exactly when the
  switch wired to the channel is pressed with inversion off, or released with inversion on.
  The switch wired to a channel is the one whose edges drive that channel's relay in
  \<open>gpioLoop\<close>: switch 1 for the channel that is not the swap flag, switch 2 for the other.
\<close>
theorem status_payload:
  assumes "linkUp s"
  shows "published (mqttCommunicate ch s) =
           published s @
             [(outTopicOf ch s,
               (if relayOf ch s then ''1'' else ''0'') @
               (if mappedSwitch ch s \<noteq> invertSwitch s then ''.'' else []),
               True)]
         \<and> mappedSwitch (\<not> swapRelays s) s = s1State s
         \<and> mappedSwitch (swapRelays s) s = s2State s"
  using assms
  by (simp add: mqttCommunicate_eq statusOf_def spec_payload_def mappedSwitch_def)

text \<open>
  Relay 1 energized and switch 1 pressed: the payload is \<open>1.\<close> without inversion and
  \<open>1\<close> with it.
\<close>

theorem status_payload_witness:
  "linkUp (booted\<lparr>offline := False, mqttConnected := True, l1State := True, s1State := True\<rparr>)
   \<and> published (mqttCommunicate True
        (booted\<lparr>offline := False, mqttConnected := True, l1State := True, s1State := True\<rparr>)) =
       [(''ibnhouse/light/kitchen/sta1'', ''1.'', True)]
   \<and> linkUp (booted\<lparr>offline := False, mqttConnected := True, l1State := True, s1State := True,
                invertSwitch := True\<rparr>)
   \<and> published (mqttCommunicate True
        (booted\<lparr>offline := False, mqttConnected := True, l1State := True, s1State := True,
                invertSwitch := True\<rparr>)) =
       [(''ibnhouse/light/kitchen/sta1'', ''1'', True)]"
  using status_payload [of "booted\<lparr>offline := False, mqttConnected := True, l1State := True,
                                   s1State := True\<rparr>" True]
        status_payload [of "booted\<lparr>offline := False, mqttConnected := True, l1State := True,
                                   s1State := True, invertSwitch := True\<rparr>" True]
  by (simp add: booted_eq power_on_def linkUp_def outTopicOf_def relayOf_def mappedSwitch_def)


subsection \<open>Relay decision engine\<close>

text \<open>
  Claim C1. In a pass of \<open>gpioLoop\<close>, whatever the three policy flags are: an edge
  on switch 1 acts on the relay of channel 1, or of channel 2 when \<open>swapRelays\<close> is
  set, and an edge on switch 2 on the other one. With \<open>respectSwitchState\<close> the relay
  becomes energized exactly when the switch is now pressed and inversion is off, or released
  and inversion is on; without it the relay's state is toggled, whichever way the switch
  moved. A switch that did not move leaves its relay as it was.
\<close>
theorem relay_decision:
  assumes "s' = gpioLoop now buttonLow s1Low s2Low s"
  shows "(s1Low \<noteq> s1State s \<longrightarrow>
            relayOf (\<not> swapRelays s) s' =
              (if respectSwitchState s then s1Low \<noteq> invertSwitch s
               else \<not> relayOf (\<not> swapRelays s) s))
       \<and> (s2Low \<noteq> s2State s \<longrightarrow>
            relayOf (swapRelays s) s' =
              (if respectSwitchState s then s2Low \<noteq> invertSwitch s
               else \<not> relayOf (swapRelays s) s))
       \<and> (s1Low = s1State s \<longrightarrow> relayOf (\<not> swapRelays s) s' = relayOf (\<not> swapRelays s) s)
       \<and> (s2Low = s2State s \<longrightarrow> relayOf (swapRelays s) s' = relayOf (swapRelays s) s)
       \<and> s1State s' = s1Low \<and> s2State s' = s2Low"
  unfolding assms
  by (simp add: gpioLoop_relayOf gpioLoop_switches)

text \<open>
  With the built-in policy (respect the switch, no swap, no inversion): pressing both
  switches energizes both relays; leaving both released changes nothing.
\<close>

theorem relay_decision_witness:
  "True \<noteq> s1State booted \<and> True \<noteq> s2State booted
   \<and> l1State (gpioLoop 1000 False True True booted)
   \<and> l2State (gpioLoop 1000 False True True booted)
   \<and> False = s1State booted \<and> False = s2State booted
   \<and> \<not> l1State (gpioLoop 1000 False False False booted)
   \<and> \<not> l2State (gpioLoop 1000 False False False booted)"
  using relay_decision [of "gpioLoop 1000 False True True booted" 1000 False True True booted]
        relay_decision [of "gpioLoop 1000 False False False booted" 1000 False False False booted]
  by (simp add: booted_eq power_on_def relayOf_def)

subsection \<open>Command payloads\<close>

lemma take_c_str:
  "NUL \<notin> set p \<Longrightarrow> length p \<le> m \<Longrightarrow>
   (take (length p) (takeWhile (\<lambda>c. c \<noteq> NUL) (take m xs @ [NUL])) = p) = (take (length p) xs = p)"
proof (induction p arbitrary: xs m)
  case Nil
  then show ?case by simp
next
  case (Cons a p)
  then obtain k where m: "m = Suc k" by (cases m) auto
  show ?case
  proof (cases xs)
    case Nil
    then show ?thesis by simp
  next
    case (Cons x xs')
    with Cons.prems Cons.IH [of k xs'] m show ?thesis by auto
  qed
qed

lemma startsWith_payloadCopy:
  assumes "NUL \<notin> set p" "length p \<le> 9"
  shows "startsWith (payloadCopy payload) p = startsWith payload p"
proof -
  have "take (min (length payload) 9) payload = take 9 payload"
    by (simp add: min_def)
  with take_c_str [OF assms, of payload] show ?thesis
    by (simp add: startsWith_def payloadCopy_def c_str_def)
qed

lemma startsWith_cmd:
  "startsWith (payloadCopy payload) CMD_SETUP = startsWith payload CMD_SETUP"
  "startsWith (payloadCopy payload) CMD_RESET = startsWith payload CMD_RESET"
  "startsWith (payloadCopy payload) CMD_OTA = startsWith payload CMD_OTA"
  "startsWith (payloadCopy payload) CMD_ON = startsWith payload CMD_ON"
  "startsWith (payloadCopy payload) CMD_OFF = startsWith payload CMD_OFF"
  by (rule startsWith_payloadCopy;
      simp add: CMD_SETUP_def CMD_RESET_def CMD_OTA_def CMD_ON_def CMD_OFF_def NUL_def)+

lemma startsWith_hd:
  "startsWith str p \<Longrightarrow> p \<noteq> [] \<Longrightarrow> str \<noteq> [] \<and> hd str = hd p"
  by (cases str; cases p) (auto simp: startsWith_def)

lemma cmd_exclusive:
  "startsWith payload CMD_ON \<Longrightarrow> \<not> startsWith payload CMD_OFF"
  "startsWith payload CMD_ON \<Longrightarrow> \<not> startsWith payload CMD_SETUP"
  "startsWith payload CMD_ON \<Longrightarrow> \<not> startsWith payload CMD_RESET"
  "startsWith payload CMD_ON \<Longrightarrow> \<not> startsWith payload CMD_OTA"
  "startsWith payload CMD_OFF \<Longrightarrow> \<not> startsWith payload CMD_ON"
  "startsWith payload CMD_OFF \<Longrightarrow> \<not> startsWith payload CMD_SETUP"
  "startsWith payload CMD_OFF \<Longrightarrow> \<not> startsWith payload CMD_RESET"
  "startsWith payload CMD_OFF \<Longrightarrow> \<not> startsWith payload CMD_OTA"
  "startsWith payload CMD_OTA \<Longrightarrow> \<not> startsWith payload CMD_SETUP"
  "startsWith payload CMD_OTA \<Longrightarrow> \<not> startsWith payload CMD_RESET"
  "startsWith payload CMD_OTA \<Longrightarrow> \<not> startsWith payload CMD_ON"
  "startsWith payload CMD_OTA \<Longrightarrow> \<not> startsWith payload CMD_OFF"
  "startsWith payload CMD_SETUP \<Longrightarrow> \<not> startsWith payload CMD_RESET"
  "startsWith payload CMD_SETUP \<Longrightarrow> \<not> startsWith payload CMD_OTA"
  "startsWith payload CMD_SETUP \<Longrightarrow> \<not> startsWith payload CMD_ON"
  "startsWith payload CMD_SETUP \<Longrightarrow> \<not> startsWith payload CMD_OFF"
  "startsWith payload CMD_RESET \<Longrightarrow> \<not> startsWith payload CMD_SETUP"
  "startsWith payload CMD_RESET \<Longrightarrow> \<not> startsWith payload CMD_OTA"
  "startsWith payload CMD_RESET \<Longrightarrow> \<not> startsWith payload CMD_ON"
  "startsWith payload CMD_RESET \<Longrightarrow> \<not> startsWith payload CMD_OFF"
  by (auto dest!: startsWith_hd
      simp: CMD_SETUP_def CMD_RESET_def CMD_OTA_def CMD_ON_def CMD_OFF_def)

lemma setRelay_eq:
  "setRelay ch v s =
     (if ch then mqttCommunicate True (s\<lparr>pinRelayL1 := v, l1State := v\<rparr>)
      else mqttCommunicate False (s\<lparr>pinRelayL2 := v, l2State := v\<rparr>))"
  by (simp add: setRelay_def relay_action_eq)

lemma mqttCallback_eq:
  "mqttCallback now topic payload s =
     (let sa = (if startsWith payload CMD_SETUP
                then startWifiManager True None False now s else s);
          sb = (if startsWith payload CMD_RESET then sa\<lparr>restart := True\<rparr> else sa);
          sc = (if startsWith payload CMD_OTA
                then sb\<lparr>otaStart := now, otaRunning := True\<rparr> else sb)
      in case addressed topic s of
           None \<Rightarrow> sc
         | Some ch \<Rightarrow>
             if startsWith payload CMD_ON then setRelay ch True sc
             else if startsWith payload CMD_OFF then setRelay ch False sc
             else sc)"
  using cmd_exclusive(1) [of payload]
  by (cases "startsWith payload CMD_ON")
     (simp_all add: mqttCallback_def Let_def startsWith_cmd addressed_def setRelay_def
       startWifiManager_onDemand)

lemma setRelay_fields:
  "relayOf c (setRelay ch v s) = (if c = ch then v else relayOf c s)"
  "pinOf c (setRelay ch v s) = (if c = ch then v else pinOf c s)"
  "published (setRelay ch v s) =
     published s @
       (if linkUp s
        then [(outTopicOf ch s, spec_payload v (mappedSwitch ch s) (invertSwitch s), True)]
        else [])"
  "linkUp (setRelay ch v s) = linkUp s"
  "addressed topic (setRelay ch v s) = addressed topic s"
  "outTopicOf c (setRelay ch v s) = outTopicOf c s"
  "mappedSwitch c (setRelay ch v s) = mappedSwitch c s"
  "invertSwitch (setRelay ch v s) = invertSwitch s"
  by (cases ch; cases c;
      simp add: setRelay_eq mqttCommunicate_eq relayOf_def pinOf_def linkUp_def statusOf_def
        outTopicOf_def mappedSwitch_def addressed_def)+

lemma on_off_only:
  assumes "startsWith payload (if on then CMD_ON else CMD_OFF)"
  shows "startsWith payload CMD_ON = on" "startsWith payload CMD_OFF = (\<not> on)"
    "\<not> startsWith payload CMD_SETUP" "\<not> startsWith payload CMD_RESET"
    "\<not> startsWith payload CMD_OTA"
  using assms cmd_exclusive(1-8) [of payload] by (cases on; simp; fail)+

lemma mqttCallback_on_off:
  assumes "addressed topic s = Some ch" "startsWith payload (if on then CMD_ON else CMD_OFF)"
  shows "mqttCallback now topic payload s = setRelay ch on s"
  using assms(1) on_off_only [OF assms(2)] by (cases on) (simp_all add: mqttCallback_eq)

lemma mqttCallback_unaddressed:
  assumes "addressed topic s = None" "startsWith payload (if on then CMD_ON else CMD_OFF)"
  shows "mqttCallback now topic payload s = s"
  using assms(1) on_off_only [OF assms(2)] by (cases on) (simp_all add: mqttCallback_eq)

lemma mqttCallback_setup:
  assumes "startsWith payload CMD_SETUP"
  shows "mqttCallback now topic payload s = startWifiManager True None False now s"
  using assms cmd_exclusive(13-16) [OF assms]
  by (simp add: mqttCallback_eq Let_def split: option.splits)

lemma mqttCallback_reset:
  assumes "startsWith payload CMD_RESET"
  shows "mqttCallback now topic payload s = s\<lparr>restart := True\<rparr>"
  using assms cmd_exclusive(17-20) [OF assms]
  by (simp add: mqttCallback_eq Let_def split: option.splits)

lemma mqttCallback_ota:
  assumes "startsWith payload CMD_OTA"
  shows "mqttCallback now topic payload s = s\<lparr>otaStart := now, otaRunning := True\<rparr>"
  using assms cmd_exclusive(9-12) [OF assms]
  by (simp add: mqttCallback_eq Let_def split: option.splits)

lemma mqttCallback_none:
  assumes "\<not> startsWith payload CMD_SETUP" "\<not> startsWith payload CMD_RESET"
    "\<not> startsWith payload CMD_OTA" "\<not> startsWith payload CMD_ON" "\<not> startsWith payload CMD_OFF"
  shows "mqttCallback now topic payload s = s"
  using assms by (simp add: mqttCallback_eq Let_def split: option.splits)


lemma online_eq:
  "online = power_on\<lparr>offline := False, mqttConnectDelay := 0, mqttConnectAttempt := 100, mqttConnected := True,
              subscribed := [''ibnhouse/light/kitchen/cmd1'', ''ibnhouse/light/kitchen/cmd2''],
              connectCalls := 1\<rparr>"
  by (simp add: online_def booted_eq loop_def quiet_def gpioLoop_eq Let_def wifimanagerLoop_def
      mqttLoop_def mqttReconnect_def mqttClientLoop_def stateOf_def power_on_def)

subsection \<open>Fields left alone\<close>

lemma changedAction_frame:
  "mqttConnected (s1ChangedAction s) = mqttConnected s"
  "offline (s1ChangedAction s) = offline s"
  "mqttConnectDelay (s1ChangedAction s) = mqttConnectDelay s"
  "linkUp (s1ChangedAction s) = linkUp s"
  "mqttConnectAttempt (s1ChangedAction s) = mqttConnectAttempt s"
  "mqttConnectAttempt (s2ChangedAction s) = mqttConnectAttempt s"
  "mqttConnected (s2ChangedAction s) = mqttConnected s"
  "offline (s2ChangedAction s) = offline s"
  "mqttConnectDelay (s2ChangedAction s) = mqttConnectDelay s"
  "linkUp (s2ChangedAction s) = linkUp s"
  by (simp_all add: s1ChangedAction_eq s2ChangedAction_eq mqttCommunicate_eq Let_def linkUp_def)

lemma changedAction_published:
  "\<not> linkUp s \<Longrightarrow> published (s1ChangedAction s) = published s"
  "\<not> linkUp s \<Longrightarrow> published (s2ChangedAction s) = published s"
  by (auto simp: s1ChangedAction_eq s2ChangedAction_eq mqttCommunicate_eq Let_def linkUp_def)

lemma startWifiManager_frame2:
  "mqttConnected (startWifiManager True stored openPortal now s) = mqttConnected s"
  "offline (startWifiManager True stored openPortal now s) = offline s"
  "mqttConnectDelay (startWifiManager True stored openPortal now s) = mqttConnectDelay s"
  "mqttConnectAttempt (startWifiManager True stored openPortal now s) = mqttConnectAttempt s"
  by (simp_all add: startWifiManager_onDemand)

lemma manualSetupStep_frame2:
  "mqttConnected (manualSetupStep now s) = mqttConnected s"
  "offline (manualSetupStep now s) = offline s"
  "mqttConnectDelay (manualSetupStep now s) = mqttConnectDelay s"
  "mqttConnectAttempt (manualSetupStep now s) = mqttConnectAttempt s"
  by (simp_all add: manualSetupStep_eq Let_def)

lemma gpioLoop_frame:
  "mqttConnected (gpioLoop now buttonLow s1Low s2Low s) = mqttConnected s"
  "offline (gpioLoop now buttonLow s1Low s2Low s) = offline s"
  "mqttConnectDelay (gpioLoop now buttonLow s1Low s2Low s) = mqttConnectDelay s"
  "linkUp (gpioLoop now buttonLow s1Low s2Low s) = linkUp s"
  "mqttConnectAttempt (gpioLoop now buttonLow s1Low s2Low s) = mqttConnectAttempt s"
  unfolding gpioLoop_eq
  by (simp_all add: Let_def changedAction_frame startWifiManager_frame startWifiManager_frame2
      manualSetupStep_frame manualSetupStep_frame2 linkUp_def)

lemma gpioLoop_published:
  assumes "\<not> linkUp s"
  shows "published (gpioLoop now buttonLow s1Low s2Low s) = published s"
proof -
  define sa where "sa = (if buttonLow then startWifiManager True None False now s else s)"
  define sc where "sc = sa\<lparr>s1State := s1Low, s2State := s2Low\<rparr>"
  define sd where "sd = (if s1Low \<noteq> s1State s then s1ChangedAction sc else sc)"
  define se where "se = (if s2Low \<noteq> s2State s then s2ChangedAction sd else sd)"
  have sc: "\<not> linkUp sc" "published sc = published s"
    using assms by (simp_all add: sc_def sa_def startWifiManager_frame linkUp_def startWifiManager_frame2)
  have sd: "\<not> linkUp sd" "published sd = published s"
    using sc by (simp_all add: sd_def changedAction_frame changedAction_published)
  have se: "published se = published s"
    using sd by (simp add: se_def changedAction_published)
  have "published (gpioLoop now buttonLow s1Low s2Low s) = published se"
    unfolding gpioLoop_eq by (simp add: Let_def manualSetupStep_frame sa_def sc_def sd_def se_def)
  with se show ?thesis by simp
qed

lemma wifimanagerLoop_frame:
  "mqttConnected (wifimanagerLoop now saved wifiUp s) = mqttConnected s"
  "offline (wifimanagerLoop now saved wifiUp s) = (\<not> wifiUp)"
  "mqttConnectDelay (wifimanagerLoop now saved wifiUp s) = mqttConnectDelay s"
  "published (wifimanagerLoop now saved wifiUp s) = published s"
  by (simp_all add: wifimanagerLoop_def Let_def saveParamsCallback_def wifiManagerSetupStopped_def
      split: option.splits)

lemma mqttReconnect_published:
  "published (snd (mqttReconnect now connectOk s)) = published s"
  by (simp add: mqttReconnect_def Let_def)

lemma mqttLoop_quiet_published:
  "published (mqttLoop now connectOk None s) = published s"
  by (simp add: mqttLoop_def mqttClientLoop_def mqttReconnect_def Let_def)


lemma loop_dispatch:
  assumes "\<not> otaRunning s" "wifiStatus c" "mqttConnected s" "\<not> linkLost c"
    and "inboundMsg c = Some (topic, payload)"
  shows "loop c s =
     (let s' = mqttCallback (millis c) topic payload
                 (wifimanagerLoop (millis c) (portalSave c) True
                    (gpioLoop (millis c) (buttonPin c) (switch1Pin c) (switch2Pin c) s))
      in if restart s' then Restarted s' else Running s')"
  using assms
  by (simp add: loop_def Let_def wifimanagerLoop_frame gpioLoop_frame mqttLoop_def
      mqttClientLoop_def)


subsection \<open>Command dispatcher\<close>

text \<open>
  \<open>mqttLoop\<close> runs only when the device is not offline, and it reaches the dispatcher only
  with the client connected, before the call or by a successful reconnect: the dispatcher
  always runs with the bus connection up.
\<close>

lemma dispatcher_link_up:
  assumes "\<not> offline s"
  shows "mqttLoop now connectOk inbound s =
           (if mqttConnected s then mqttClientLoop now inbound s
            else if fst (mqttReconnect now connectOk s)
              then mqttClientLoop now inbound (snd (mqttReconnect now connectOk s))
              else snd (mqttReconnect now connectOk s))"
    and "mqttConnected s \<Longrightarrow> linkUp s"
    and "fst (mqttReconnect now connectOk s) \<Longrightarrow> linkUp (snd (mqttReconnect now connectOk s))"
  using assms
  by (simp_all add: mqttLoop_def linkUp_def mqttReconnect_def Let_def split: prod.splits if_splits)

text \<open>
  Claim C7. While the bus connection is up (the only situation in which the loop runs
  the dispatcher), a payload starting with \<open>1\<close> or \<open>0\<close> on the command topic of a
  channel sets that channel's relay to on or off, whatever the swap, inversion and
  respect-state flags are, and publishes the channel's status. The same command sent a
  second time leaves the relay as the first left it and publishes the status again: two
  publications in all, the other channel untouched.
\<close>
theorem command_sets_relay:
  assumes "linkUp s"
    and "addressed topic s = Some ch"
    and "startsWith payload (if on then CMD_ON else CMD_OFF)"
    and "s1 = mqttCallback now topic payload s"
    and "s2 = mqttCallback now' topic payload s1"
  shows "relayOf ch s1 = on \<and> relayOf ch s2 = on
       \<and> relayOf (\<not> ch) s2 = relayOf (\<not> ch) s
       \<and> published s1 =
           published s @
             [(outTopicOf ch s, spec_payload on (mappedSwitch ch s) (invertSwitch s), True)]
       \<and> published s2 =
           published s @
             [(outTopicOf ch s, spec_payload on (mappedSwitch ch s) (invertSwitch s), True),
              (outTopicOf ch s, spec_payload on (mappedSwitch ch s) (invertSwitch s), True)]"
proof -
  have s1: "s1 = setRelay ch on s"
    using assms(2,3,4) by (simp add: mqttCallback_on_off)
  have "addressed topic s1 = Some ch"
    using assms(2) by (simp add: s1 setRelay_fields)
  then have s2: "s2 = setRelay ch on s1"
    using assms(3,5) by (simp add: mqttCallback_on_off)
  show ?thesis
    using assms(1) by (simp add: s1 s2 setRelay_fields)
qed

text \<open>The command \<open>1\<close> sent twice to channel 2 of the online device.\<close>

theorem command_sets_relay_witness:
  "linkUp online
   \<and> addressed ''ibnhouse/light/kitchen/cmd2'' online = Some False
   \<and> startsWith ''1'' CMD_ON
   \<and> l2State (mqttCallback 200 ''ibnhouse/light/kitchen/cmd2'' ''1'' online)
   \<and> l2State (mqttCallback 300 ''ibnhouse/light/kitchen/cmd2'' ''1''
        (mqttCallback 200 ''ibnhouse/light/kitchen/cmd2'' ''1'' online))
   \<and> published (mqttCallback 300 ''ibnhouse/light/kitchen/cmd2'' ''1''
        (mqttCallback 200 ''ibnhouse/light/kitchen/cmd2'' ''1'' online)) =
       [(''ibnhouse/light/kitchen/sta2'', ''1'', True), (''ibnhouse/light/kitchen/sta2'', ''1'', True)]"
  using command_sets_relay [of online "''ibnhouse/light/kitchen/cmd2''" False "''1''" True
      "mqttCallback 200 ''ibnhouse/light/kitchen/cmd2'' ''1'' online" 200
      "mqttCallback 300 ''ibnhouse/light/kitchen/cmd2'' ''1''
        (mqttCallback 200 ''ibnhouse/light/kitchen/cmd2'' ''1'' online)" 300]
  by (simp add: online_eq power_on_def linkUp_def addressed_def startsWith_def CMD_ON_def
      relayOf_def outTopicOf_def spec_payload_def mappedSwitch_def)

text \<open>
  Claim C8. The dispatcher matches the payload by prefix. A payload starting with
  \<open>set\<close> requests the configuration portal, one starting with \<open>rst\<close> sets the restart
  flag and one starting with \<open>ota\<close> enters update mode, each whatever the topic is. A
  payload starting with \<open>1\<close> or \<open>0\<close> acts only when the topic equals a channel's
  command topic, and then on that channel's relay alone; on any other topic it changes
  nothing. A payload with none of the five prefixes leaves the whole state as it was;
  the dispatcher has no error result.
\<close>
theorem dispatch_by_prefix:
  assumes "s' = mqttCallback now topic payload s"
  shows "(startsWith payload CMD_SETUP \<longrightarrow>
            s' = startWifiManager True None False now s \<and> wifiManagerSetupRunning s')
       \<and> (startsWith payload CMD_RESET \<longrightarrow> s' = s\<lparr>restart := True\<rparr>)
       \<and> (startsWith payload CMD_OTA \<longrightarrow> s' = s\<lparr>otaStart := now, otaRunning := True\<rparr>)
       \<and> (startsWith payload (if on then CMD_ON else CMD_OFF) \<longrightarrow>
            (case addressed topic s of
               None \<Rightarrow> s' = s
             | Some ch \<Rightarrow>
                 s' = setRelay ch on s \<and> relayOf ch s' = on \<and> pinOf ch s' = on
                 \<and> relayOf (\<not> ch) s' = relayOf (\<not> ch) s \<and> pinOf (\<not> ch) s' = pinOf (\<not> ch) s))
       \<and> (\<not> startsWith payload CMD_SETUP \<and> \<not> startsWith payload CMD_RESET
          \<and> \<not> startsWith payload CMD_OTA \<and> \<not> startsWith payload CMD_ON
          \<and> \<not> startsWith payload CMD_OFF \<longrightarrow> s' = s)"
proof -
  have h_set: "startsWith payload CMD_SETUP \<Longrightarrow>
      s' = startWifiManager True None False now s \<and> wifiManagerSetupRunning s'"
    by (simp add: assms mqttCallback_setup startWifiManager_onDemand)
  have h_rst: "startsWith payload CMD_RESET \<Longrightarrow> s' = s\<lparr>restart := True\<rparr>"
    by (simp add: assms mqttCallback_reset)
  have h_ota: "startsWith payload CMD_OTA \<Longrightarrow> s' = s\<lparr>otaStart := now, otaRunning := True\<rparr>"
    by (simp add: assms mqttCallback_ota)
  have h_onoff: "startsWith payload (if on then CMD_ON else CMD_OFF) \<Longrightarrow>
      (case addressed topic s of
         None \<Rightarrow> s' = s
       | Some ch \<Rightarrow>
           s' = setRelay ch on s \<and> relayOf ch s' = on \<and> pinOf ch s' = on
           \<and> relayOf (\<not> ch) s' = relayOf (\<not> ch) s \<and> pinOf (\<not> ch) s' = pinOf (\<not> ch) s)"
    by (cases "addressed topic s")
       (simp_all add: assms mqttCallback_on_off mqttCallback_unaddressed setRelay_fields)
  have h_none: "\<not> startsWith payload CMD_SETUP \<Longrightarrow> \<not> startsWith payload CMD_RESET \<Longrightarrow>
      \<not> startsWith payload CMD_OTA \<Longrightarrow> \<not> startsWith payload CMD_ON \<Longrightarrow>
      \<not> startsWith payload CMD_OFF \<Longrightarrow> s' = s"
    by (simp add: assms mqttCallback_none)
  from h_set h_rst h_ota h_onoff h_none show ?thesis
    by blast
qed

text \<open>
  The three mode commands on a topic that is no channel's, \<open>1\<close> on the command topic
  of channel 1 and on a foreign topic, and an unknown payload.
\<close>

theorem dispatch_by_prefix_witness:
  "startsWith ''set'' CMD_SETUP
   \<and> wifiManagerSetupRunning (mqttCallback 200 ''elsewhere'' ''set'' online)
   \<and> startsWith ''rst'' CMD_RESET
   \<and> restart (mqttCallback 200 ''elsewhere'' ''rst'' online)
   \<and> startsWith ''ota'' CMD_OTA
   \<and> otaRunning (mqttCallback 200 ''elsewhere'' ''ota'' online)
   \<and> startsWith ''1'' (if True then CMD_ON else CMD_OFF)
   \<and> addressed ''ibnhouse/light/kitchen/cmd1'' online = Some True
   \<and> l1State (mqttCallback 200 ''ibnhouse/light/kitchen/cmd1'' ''1'' online)
   \<and> \<not> l2State (mqttCallback 200 ''ibnhouse/light/kitchen/cmd1'' ''1'' online)
   \<and> addressed ''elsewhere'' online = None
   \<and> mqttCallback 200 ''elsewhere'' ''1'' online = online
   \<and> \<not> startsWith ''hello'' CMD_SETUP \<and> \<not> startsWith ''hello'' CMD_RESET
   \<and> \<not> startsWith ''hello'' CMD_OTA \<and> \<not> startsWith ''hello'' CMD_ON
   \<and> \<not> startsWith ''hello'' CMD_OFF
   \<and> mqttCallback 200 ''ibnhouse/light/kitchen/cmd1'' ''hello'' online = online"
proof -
  have pre: "startsWith ''set'' CMD_SETUP" "startsWith ''rst'' CMD_RESET" "startsWith ''ota'' CMD_OTA"
    "startsWith ''1'' (if True then CMD_ON else CMD_OFF)"
    "\<not> startsWith ''hello'' CMD_SETUP" "\<not> startsWith ''hello'' CMD_RESET"
    "\<not> startsWith ''hello'' CMD_OTA" "\<not> startsWith ''hello'' CMD_ON"
    "\<not> startsWith ''hello'' CMD_OFF"
    by (simp_all add: startsWith_def CMD_SETUP_def CMD_RESET_def CMD_OTA_def CMD_ON_def
        CMD_OFF_def)
  have adr: "addressed ''ibnhouse/light/kitchen/cmd1'' online = Some True"
    "addressed ''elsewhere'' online = None"
    by (simp_all add: addressed_def online_eq power_on_def)
  have l2: "\<not> l2State online"
    by (simp add: online_eq power_on_def)
  have a: "wifiManagerSetupRunning (mqttCallback 200 ''elsewhere'' ''set'' online)"
    using dispatch_by_prefix [OF refl, of "''set''" 200 "''elsewhere''" online True] pre(1)
    by blast
  have b: "restart (mqttCallback 200 ''elsewhere'' ''rst'' online)"
    using dispatch_by_prefix [OF refl, of "''rst''" 200 "''elsewhere''" online True] pre(2)
    by simp
  have c: "otaRunning (mqttCallback 200 ''elsewhere'' ''ota'' online)"
    using dispatch_by_prefix [OF refl, of "''ota''" 200 "''elsewhere''" online True] pre(3)
    by simp
  have d: "l1State (mqttCallback 200 ''ibnhouse/light/kitchen/cmd1'' ''1'' online)
      \<and> \<not> l2State (mqttCallback 200 ''ibnhouse/light/kitchen/cmd1'' ''1'' online)"
    using dispatch_by_prefix [OF refl, of "''1''" 200 "''ibnhouse/light/kitchen/cmd1''" online True]
      pre(4) adr(1) l2
    by (auto simp add: relayOf_def)
  have e: "mqttCallback 200 ''elsewhere'' ''1'' online = online"
    using dispatch_by_prefix [OF refl, of "''1''" 200 "''elsewhere''" online True] pre(4) adr(2)
    by auto
  have f: "mqttCallback 200 ''ibnhouse/light/kitchen/cmd1'' ''hello'' online = online"
    using dispatch_by_prefix [OF refl, of "''hello''" 200 "''ibnhouse/light/kitchen/cmd1''"
        online True] pre(5-9)
    by blast
  from pre adr a b c d e f show ?thesis
    by simp
qed

text \<open>
  Claim C10. When both channels are configured with the same command topic, an on or off
  command on that topic sets the relay of channel 1 and publishes (when the connection is
  up) the status of channel 1 only; the relay of channel 2 keeps its state.
\<close>
theorem shared_command_topic:
  assumes "mqttInTopic1 s = mqttInTopic2 s"
    and "topic = mqttInTopic1 s"
    and "startsWith payload (if on then CMD_ON else CMD_OFF)"
    and "s' = mqttCallback now topic payload s"
  shows "l1State s' = on \<and> l2State s' = l2State s \<and> pinRelayL2 s' = pinRelayL2 s
       \<and> published s' =
           published s @
             (if linkUp s
              then [(mqttOutTopic1 s, spec_payload on (mappedSwitch True s) (invertSwitch s), True)]
              else [])"
proof -
  have "addressed topic s = Some True"
    using assms(2) by (simp add: addressed_def)
  then have "s' = setRelay True on s"
    using assms(3,4) by (simp add: mqttCallback_on_off)
  then show ?thesis
    using setRelay_fields(1,2) [of True True on s] setRelay_fields(1,2) [of False True on s]
      setRelay_fields(3) [of True on s]
    by (simp add: relayOf_def pinOf_def outTopicOf_def)
qed

text \<open>Both channels listening on the command topic of channel 1.\<close>

theorem shared_command_topic_witness:
  "mqttInTopic1 (online\<lparr>mqttInTopic2 := ''ibnhouse/light/kitchen/cmd1''\<rparr>) =
     mqttInTopic2 (online\<lparr>mqttInTopic2 := ''ibnhouse/light/kitchen/cmd1''\<rparr>)
   \<and> ''ibnhouse/light/kitchen/cmd1'' =
     mqttInTopic1 (online\<lparr>mqttInTopic2 := ''ibnhouse/light/kitchen/cmd1''\<rparr>)
   \<and> startsWith ''1'' (if True then CMD_ON else CMD_OFF)
   \<and> l1State (mqttCallback 200 ''ibnhouse/light/kitchen/cmd1'' ''1''
        (online\<lparr>mqttInTopic2 := ''ibnhouse/light/kitchen/cmd1''\<rparr>))
   \<and> \<not> l2State (mqttCallback 200 ''ibnhouse/light/kitchen/cmd1'' ''1''
        (online\<lparr>mqttInTopic2 := ''ibnhouse/light/kitchen/cmd1''\<rparr>))
   \<and> published (mqttCallback 200 ''ibnhouse/light/kitchen/cmd1'' ''1''
        (online\<lparr>mqttInTopic2 := ''ibnhouse/light/kitchen/cmd1''\<rparr>)) =
       [(''ibnhouse/light/kitchen/sta1'', ''1'', True)]"
  using shared_command_topic [of "online\<lparr>mqttInTopic2 := ''ibnhouse/light/kitchen/cmd1''\<rparr>"
          "''ibnhouse/light/kitchen/cmd1''" "''1''" True
          "mqttCallback 200 ''ibnhouse/light/kitchen/cmd1'' ''1''
             (online\<lparr>mqttInTopic2 := ''ibnhouse/light/kitchen/cmd1''\<rparr>)" 200]
  by (simp add: startsWith_def CMD_ON_def online_eq power_on_def linkUp_def spec_payload_def
      mappedSwitch_def)

subsection \<open>Publications while the connection is down\<close>

text \<open>
  Claim C9. While the bus connection is down (the device is offline or the client is not
  connected), each relay action still sets the relay pin and the relay state, and changes
  nothing else: no publication is made and nothing is put aside for later. The same holds
  for the relay changes made by a pass of \<open>gpioLoop\<close>. A later successful reconnect,
  from whatever state, publishes nothing either.
\<close>
theorem dropped_when_down:
  assumes "\<not> linkUp s"
  shows "enableL1 s = s\<lparr>pinRelayL1 := True, l1State := True\<rparr>
       \<and> disableL1 s = s\<lparr>pinRelayL1 := False, l1State := False\<rparr>
       \<and> enableL2 s = s\<lparr>pinRelayL2 := True, l2State := True\<rparr>
       \<and> disableL2 s = s\<lparr>pinRelayL2 := False, l2State := False\<rparr>
       \<and> published (gpioLoop now buttonLow s1Low s2Low s) = published s
       \<and> published (snd (mqttReconnect now' True s')) = published s'
       \<and> published (mqttLoop now' True None s') = published s'"
  using assms gpioLoop_published [OF assms]
  by (simp add: relay_action_eq mqttCommunicate_eq linkUp_def mqttReconnect_published
      mqttLoop_quiet_published)

text \<open>
  Pressing switch 1 on the booted, offline device energizes relay 1 without a
  publication, and the reconnect that follows publishes nothing.
\<close>

theorem dropped_when_down_witness:
  "\<not> linkUp booted
   \<and> l1State (enableL1 booted) \<and> published (enableL1 booted) = []
   \<and> l1State (gpioLoop 1000 False True False booted)
   \<and> published (gpioLoop 1000 False True False booted) = []
   \<and> mqttConnected (snd (mqttReconnect 2000 True (gpioLoop 1000 False True False booted)))
   \<and> published (snd (mqttReconnect 2000 True (gpioLoop 1000 False True False booted))) = []"
proof -
  have down: "\<not> linkUp booted"
    by (simp add: booted_eq power_on_def linkUp_def)
  have l1: "l1State (gpioLoop 1000 False True False booted)"
    by (simp add: gpioLoop_relayOf [of True, unfolded relayOf_def, simplified] booted_eq power_on_def)
  have conn: "mqttConnected (snd (mqttReconnect 2000 True (gpioLoop 1000 False True False booted)))"
    by (simp add: mqttReconnect_def Let_def gpioLoop_frame booted_eq power_on_def)
  from dropped_when_down [OF down, of 1000 False True False 2000
      "gpioLoop 1000 False True False booted"] down l1 conn
  show ?thesis
    by (simp add: booted_eq power_on_def)
qed

subsection \<open>Reconnection backoff\<close>

lemma mqttCallback_delay:
  "mqttConnectDelay (mqttCallback now topic payload s) = mqttConnectDelay s"
  by (simp add: mqttCallback_eq Let_def setRelay_eq mqttCommunicate_eq startWifiManager_onDemand
      split: option.splits)

lemma delay_step:
  assumes "d \<le> (60000 :: ulong)"
  shows "unat (d + 1000) = unat d + 1000"
proof -
  from assms have "unat d \<le> 60000"
    by (simp add: word_le_nat_alt)
  then have "unat d + unat (1000 :: ulong) < 2 ^ LENGTH(32)"
    by simp
  then have "unat (d + 1000) = unat d + unat (1000 :: ulong)"
    by (simp only: unat_add_lem)
  then show ?thesis by simp
qed

lemma delay_capped:
  assumes "d \<le> (60000 :: ulong)"
  shows "unat (if d + 1000 > 60000 then 60000 else d + 1000) = min (unat d + 1000) 60000"
  using delay_step [OF assms] by (simp add: word_less_nat_alt min_def)

lemma mqttReconnect_eq:
  "mqttReconnect now connectOk s =
     (if \<not> mqttConnected s \<and> now - mqttConnectAttempt s > mqttConnectDelay s then
        (connectOk,
         s\<lparr>mqttConnectDelay :=
              (if connectOk then 0
               else if mqttConnectDelay s + 1000 > 60000 then 60000 else mqttConnectDelay s + 1000),
            mqttConnectAttempt := now,
            connectCalls := connectCalls s + 1,
            mqttConnected := connectOk,
            subscribed := subscribed s @ (if connectOk then [mqttInTopic1 s, mqttInTopic2 s] else [])\<rparr>)
      else (False, s))"
  by (simp add: mqttReconnect_def Let_def)

lemma mqttReconnect_delay:
  assumes "mqttConnectDelay s \<le> 60000"
  shows "mqttConnectDelay (snd (mqttReconnect now connectOk s)) \<le> 60000"
  using assms by (auto simp add: mqttReconnect_eq not_less)

lemma mqttLoop_delay:
  assumes "mqttConnectDelay s \<le> 60000"
  shows "mqttConnectDelay (mqttLoop now connectOk inbound s) \<le> 60000"
proof -
  have "mqttConnectDelay (mqttClientLoop now inbound t) = mqttConnectDelay t" for t
    by (simp add: mqttClientLoop_def mqttCallback_delay split: option.splits)
  with assms mqttReconnect_delay [OF assms, of now connectOk] show ?thesis
    by (cases "mqttReconnect now connectOk s") (simp add: mqttLoop_def)
qed

lemma loop_delay:
  assumes "mqttConnectDelay s \<le> 60000"
  shows "mqttConnectDelay (stateOf (loop c s)) \<le> 60000"
proof -
  define s0 where "s0 = (if linkLost c then s\<lparr>mqttConnected := False\<rparr> else s)"
  define sb where "sb = wifimanagerLoop (millis c) (portalSave c) (wifiStatus c)
      (gpioLoop (millis c) (buttonPin c) (switch1Pin c) (switch2Pin c) s0)"
  have s0: "mqttConnectDelay s0 \<le> 60000"
    using assms by (simp add: s0_def)
  then have sb: "mqttConnectDelay sb \<le> 60000"
    by (simp add: sb_def wifimanagerLoop_frame gpioLoop_frame)
  from s0 sb mqttLoop_delay [OF sb] show ?thesis
    by (simp add: loop_def Let_def stateOf_def s0_def [symmetric] sb_def [symmetric])
qed

lemma setup_boot_delay:
  "mqttConnectDelay (setup_boot s1Low s2Low stored openPortal now power_on) = 0"
  by (simp add: setup_boot_def startWifiManager_def autoConnect_def loadConfig_def
      wifiManagerSetupStarted_def power_on_def Let_def split: option.splits)

lemma reachable_delay:
  "reachable s \<Longrightarrow> mqttConnectDelay s \<le> 60000"
proof (induction rule: reachable.induct)
  case (boot s1Low s2Low stored openPortal now)
  show ?case by (simp add: setup_boot_delay)
next
  case (pass s c s')
  from loop_delay [OF pass.IH, of c] pass.hyps(2) show ?case
    by (simp add: stateOf_def)
qed

text \<open>
  Within a pass, \<open>mqttReconnect\<close> is handed the state left by \<open>gpioLoop\<close> and
  \<open>wifimanagerLoop\<close>, whose delay is that of the state the pass started in.
\<close>

lemma loop_reconnect_delay:
  "mqttConnectDelay
     (wifimanagerLoop now saved wifiUp
        (gpioLoop now buttonLow s1Low s2Low (if lost then s\<lparr>mqttConnected := False\<rparr> else s))) =
   mqttConnectDelay s"
  by (simp add: wifimanagerLoop_frame gpioLoop_frame)

text \<open>
  Claim C3. In every state the loop can reach, the reconnect delay is at most 60000 ms. A
  call of \<open>mqttReconnect\<close> in a state with such a delay makes a connect attempt exactly
  when the client is disconnected and the time since the last attempt (the wrapping
  difference of the two clock readings) exceeds the delay; without an attempt nothing
  changes. A failed attempt records its time and leaves the delay 1000 ms longer, capped
  at 60000 ms; a successful one subscribes to the command topics of both channels and
  resets the delay to 0. Either way the delay is at most 60000 ms afterwards.
\<close>

theorem reconnect_backoff:
  assumes "mqttConnectDelay s \<le> 60000"
    and "(ok, s') = mqttReconnect now connectOk s"
    and "attempt = (\<not> mqttConnected s \<and> now - mqttConnectAttempt s > mqttConnectDelay s)"
  shows "mqttConnectDelay s' \<le> 60000
       \<and> connectCalls s' = connectCalls s + (if attempt then 1 else 0)
       \<and> (\<not> attempt \<longrightarrow> s' = s \<and> \<not> ok)
       \<and> (attempt \<and> \<not> connectOk \<longrightarrow>
            \<not> ok \<and> \<not> mqttConnected s' \<and> mqttConnectAttempt s' = now
            \<and> unat (mqttConnectDelay s') = min (unat (mqttConnectDelay s) + 1000) 60000
            \<and> subscribed s' = subscribed s)
       \<and> (attempt \<and> connectOk \<longrightarrow>
            ok \<and> mqttConnected s' \<and> mqttConnectDelay s' = 0
            \<and> subscribed s' = subscribed s @ [mqttInTopic1 s, mqttInTopic2 s])
       \<and> (reachable r \<longrightarrow> mqttConnectDelay r \<le> 60000)"
proof -
  note d = assms(1)
  have d': "mqttConnectDelay s' \<le> 60000"
    using mqttReconnect_delay [OF d, of now connectOk] assms(2) [symmetric] by simp
  have r: "ok = fst (mqttReconnect now connectOk s)" "s' = snd (mqttReconnect now connectOk s)"
    using assms(2) [symmetric] by simp_all
  have fail: "unat (mqttConnectDelay s') = min (unat (mqttConnectDelay s) + 1000) 60000"
    if "attempt" "\<not> connectOk"
    using that delay_capped [OF d] by (simp add: r mqttReconnect_eq assms(3))
  from d' fail reachable_delay [of r] show ?thesis
    by (simp add: r mqttReconnect_eq assms(3))
qed

text \<open>
  The booted device at time 1000: a failed attempt, a successful attempt; and at time 0,
  when no time has passed since the (initial) last attempt, no attempt.
\<close>

theorem reconnect_backoff_witness:
  "mqttConnectDelay booted \<le> 60000 \<and> reachable booted
   \<and> \<not> mqttConnected booted \<and> 1000 - mqttConnectAttempt booted > mqttConnectDelay booted
   \<and> unat (mqttConnectDelay (snd (mqttReconnect 1000 False booted))) = 1000
   \<and> \<not> fst (mqttReconnect 1000 False booted)
   \<and> mqttConnectDelay (snd (mqttReconnect 1000 True booted)) = 0
   \<and> subscribed (snd (mqttReconnect 1000 True booted)) =
       [''ibnhouse/light/kitchen/cmd1'', ''ibnhouse/light/kitchen/cmd2'']
   \<and> \<not> (0 - mqttConnectAttempt booted > mqttConnectDelay booted)
   \<and> mqttReconnect 0 True booted = (False, booted)"
proof -
  have b: "reachable booted"
    unfolding booted_def by (rule reachable.boot)
  have v: "\<not> mqttConnected booted" "mqttConnectAttempt booted = 0" "mqttConnectDelay booted = 0"
    "subscribed booted = []" "mqttInTopic1 booted = ''ibnhouse/light/kitchen/cmd1''"
    "mqttInTopic2 booted = ''ibnhouse/light/kitchen/cmd2''"
    by (simp_all add: booted_eq power_on_def)
  have d: "mqttConnectDelay booted \<le> 60000"
    by (simp add: v)
  from reconnect_backoff [OF d, of "fst (mqttReconnect 1000 False booted)"
         "snd (mqttReconnect 1000 False booted)" 1000 False True booted]
       reconnect_backoff [OF d, of "fst (mqttReconnect 1000 True booted)"
         "snd (mqttReconnect 1000 True booted)" 1000 True True booted]
       reconnect_backoff [OF d, of "fst (mqttReconnect 0 True booted)"
         "snd (mqttReconnect 0 True booted)" 0 True False booted]
       b v
  show ?thesis
    by (simp add: prod_eq_iff)
qed

subsection \<open>Setup gesture\<close>













subsection \<open>Mode flags\<close>

lemma gpioLoop_idle:
  assumes "s1Low = s1State s" "s2Low = s2State s"
  shows "gpioLoop now False s1Low s2Low s = s"
  using assms by (simp add: gpioLoop_eq)

lemma wifimanagerLoop_idle:
  assumes "\<not> (wifiManagerSetupRunning s \<and> now - wifiManagerSetupStart s > CONFIG_TIMEOUT_MS)"
  shows "wifimanagerLoop now None True s = s\<lparr>offline := False\<rparr>"
  using assms by (auto simp add: wifimanagerLoop_def)

lemma loop_online:
  "loop (quiet 100) booted = Running online"
  by (simp add: online_def booted_eq loop_def quiet_def gpioLoop_eq Let_def wifimanagerLoop_def
      mqttLoop_def mqttReconnect_def mqttClientLoop_def stateOf_def power_on_def)

lemma portal_opened_eq:
  "portal_opened =
     online\<lparr>portalStarts := 1, wifiManagerSetupRunning := True, wifiManagerSetupStart := 200\<rparr>"
  "loop ((quiet 200)\<lparr>inboundMsg := Some (''ibnhouse/light/kitchen/cmd1'', ''set'')\<rparr>) online =
     Running portal_opened"
proof -
  have pre: "startsWith ''set'' CMD_SETUP"
    by (simp add: startsWith_def CMD_SETUP_def)
  have "loop ((quiet 200)\<lparr>inboundMsg := Some (''ibnhouse/light/kitchen/cmd1'', ''set'')\<rparr>) online =
     Running (online\<lparr>portalStarts := 1, wifiManagerSetupRunning := True,
                      wifiManagerSetupStart := 200\<rparr>)"
    by (subst loop_dispatch [of _ _ "''ibnhouse/light/kitchen/cmd1''" "''set''"])
       (simp_all add: quiet_def online_eq power_on_def gpioLoop_idle wifimanagerLoop_idle
         mqttCallback_setup [OF pre] startWifiManager_onDemand)
  then show
    "portal_opened =
       online\<lparr>portalStarts := 1, wifiManagerSetupRunning := True, wifiManagerSetupStart := 200\<rparr>"
    "loop ((quiet 200)\<lparr>inboundMsg := Some (''ibnhouse/light/kitchen/cmd1'', ''set'')\<rparr>) online =
       Running portal_opened"
    by (simp_all add: portal_opened_def stateOf_def)
qed

lemma portal_and_update_eq:
  "portal_and_update = portal_opened\<lparr>otaStart := 300, otaRunning := True\<rparr>"
  "loop ((quiet 300)\<lparr>inboundMsg := Some (''ibnhouse/light/kitchen/cmd1'', ''ota'')\<rparr>)
     portal_opened = Running portal_and_update"
proof -
  have pre: "startsWith ''ota'' CMD_OTA"
    by (simp add: startsWith_def CMD_OTA_def)
  have "loop ((quiet 300)\<lparr>inboundMsg := Some (''ibnhouse/light/kitchen/cmd1'', ''ota'')\<rparr>)
      portal_opened = Running (portal_opened\<lparr>otaStart := 300, otaRunning := True\<rparr>)"
    by (subst loop_dispatch [of _ _ "''ibnhouse/light/kitchen/cmd1''" "''ota''"])
       (simp_all add: quiet_def portal_opened_eq(1) online_eq power_on_def gpioLoop_idle
         wifimanagerLoop_idle mqttCallback_ota [OF pre] CONFIG_TIMEOUT_MS_def)
  then show "portal_and_update = portal_opened\<lparr>otaStart := 300, otaRunning := True\<rparr>"
    "loop ((quiet 300)\<lparr>inboundMsg := Some (''ibnhouse/light/kitchen/cmd1'', ''ota'')\<rparr>)
       portal_opened = Running portal_and_update"
    by (simp_all add: portal_and_update_def stateOf_def)
qed

lemma reachable_examples:
  "reachable booted" "reachable online" "reachable portal_opened" "reachable portal_and_update"
proof -
  show b: "reachable booted"
    unfolding booted_def by (rule reachable.boot)
  show on: "reachable online"
    using b loop_online by (rule reachable.pass)
  show po: "reachable portal_opened"
    using on portal_opened_eq(2) by (rule reachable.pass)
  show "reachable portal_and_update"
    using po portal_and_update_eq(2) by (rule reachable.pass)
qed

text \<open>
  Claim C5 does not hold as stated. The online device that is sent \<open>set\<close> and, one pass
  later, \<open>ota\<close> reaches a state in which the portal-running flag and the update-running
  flag are both set.
\<close>
theorem mode_exclusivity_counterexample:
  "reachable portal_and_update
   \<and> wifiManagerSetupRunning portal_and_update \<and> otaRunning portal_and_update"
proof -
  have "wifiManagerSetupRunning portal_and_update" "otaRunning portal_and_update"
    by (simp_all add: portal_and_update_eq(1) portal_opened_eq(1))
  with reachable_examples(4) show ?thesis
    by blast
qed

text \<open>
  Claim C5, amended. Entering update mode is not guarded: the dispatcher answers a payload
  starting with \<open>ota\<close> by setting \<open>otaRunning\<close> and leaves the portal-running flag as
  it is, so both can be set. The converse is excluded: in a pass that starts with
  \<open>otaRunning\<close> set, the loop runs only the update handler, so update mode stays active,
  the portal-running flag does not change and no portal is started; and
  \<open>startWifiManager\<close> does nothing while the portal is running.
\<close>
theorem mode_flags:
  "(otaRunning s \<longrightarrow>
      otaRunning (stateOf (loop c s))
      \<and> wifiManagerSetupRunning (stateOf (loop c s)) = wifiManagerSetupRunning s
      \<and> portalStarts (stateOf (loop c s)) = portalStarts s)
   \<and> (wifiManagerSetupRunning s \<longrightarrow> startWifiManager onDemand stored openPortal now s = s)
   \<and> (startsWith payload CMD_OTA \<longrightarrow>
        otaRunning (mqttCallback now topic payload s)
        \<and> wifiManagerSetupRunning (mqttCallback now topic payload s) = wifiManagerSetupRunning s)"
proof -
  have a: "otaRunning (stateOf (loop c s))
      \<and> wifiManagerSetupRunning (stateOf (loop c s)) = wifiManagerSetupRunning s
      \<and> portalStarts (stateOf (loop c s)) = portalStarts s" if "otaRunning s"
    using that by (simp add: loop_def Let_def stateOf_def)
  have b: "startWifiManager onDemand stored openPortal now s = s" if "wifiManagerSetupRunning s"
    using that by (simp add: startWifiManager_def)
  have c: "otaRunning (mqttCallback now topic payload s)
        \<and> wifiManagerSetupRunning (mqttCallback now topic payload s) = wifiManagerSetupRunning s"
    if "startsWith payload CMD_OTA"
    using that by (simp add: mqttCallback_ota)
  from a b c show ?thesis by blast
qed

text \<open>
  The state with both flags set, one more pass later; and the state with the portal
  running, asked to start the portal again and sent \<open>ota\<close>.
\<close>

theorem mode_flags_witness:
  "otaRunning portal_and_update
   \<and> wifiManagerSetupRunning (stateOf (loop (quiet 400) portal_and_update))
   \<and> portalStarts (stateOf (loop (quiet 400) portal_and_update)) = 1
   \<and> wifiManagerSetupRunning portal_opened
   \<and> startWifiManager True None False 250 portal_opened = portal_opened
   \<and> startsWith ''ota'' CMD_OTA
   \<and> otaRunning (mqttCallback 300 ''ibnhouse/light/kitchen/cmd1'' ''ota'' portal_opened)
   \<and> wifiManagerSetupRunning (mqttCallback 300 ''ibnhouse/light/kitchen/cmd1'' ''ota'' portal_opened)"
proof -
  have pre: "otaRunning portal_and_update" "wifiManagerSetupRunning portal_and_update"
    "portalStarts portal_and_update = 1" "wifiManagerSetupRunning portal_opened"
    "startsWith ''ota'' CMD_OTA"
    by (simp_all add: portal_and_update_eq(1) portal_opened_eq(1) online_eq power_on_def
        startsWith_def CMD_OTA_def)
  from mode_flags [where s = portal_and_update and c = "quiet 400" and payload = "''ota''"]
       mode_flags [where s = portal_opened and onDemand = True and stored = None
         and openPortal = False and now = 250 and payload = "''ota''"]
       mode_flags [where s = portal_opened and now = 300 and payload = "''ota''"
         and topic = "''ibnhouse/light/kitchen/cmd1''"]
       pre
  show ?thesis
    by simp
qed

subsection \<open>Reset command\<close>

lemma update_mode_eq:
  "update_mode = online\<lparr>otaStart := 200, otaRunning := True\<rparr>"
  "loop ((quiet 200)\<lparr>inboundMsg := Some (''ibnhouse/light/kitchen/cmd1'', ''ota'')\<rparr>) online =
     Running update_mode"
proof -
  have pre: "startsWith ''ota'' CMD_OTA"
    by (simp add: startsWith_def CMD_OTA_def)
  have "loop ((quiet 200)\<lparr>inboundMsg := Some (''ibnhouse/light/kitchen/cmd1'', ''ota'')\<rparr>) online =
      Running (online\<lparr>otaStart := 200, otaRunning := True\<rparr>)"
    by (subst loop_dispatch [of _ _ "''ibnhouse/light/kitchen/cmd1''" "''ota''"])
       (simp_all add: quiet_def online_eq power_on_def gpioLoop_idle wifimanagerLoop_idle
         mqttCallback_ota [OF pre])
  then show "update_mode = online\<lparr>otaStart := 200, otaRunning := True\<rparr>"
    "loop ((quiet 200)\<lparr>inboundMsg := Some (''ibnhouse/light/kitchen/cmd1'', ''ota'')\<rparr>) online =
       Running update_mode"
    by (simp_all add: update_mode_def stateOf_def)
qed

lemma loop_update_mode:
  assumes "otaRunning s"
  shows "loop c s =
     (let s0 = (if linkLost c then s\<lparr>mqttConnected := False\<rparr> else s);
          s' = (if millis c - otaStart s > OTA_TIMEOUT_MS then s0\<lparr>restart := True\<rparr> else s0)
      in if restart s' then Restarted s' else Running s')"
  using assms by (simp add: loop_def Let_def)

text \<open>
  Claim C6 does not hold as stated. Once the device is in update mode, a pass of the loop
  in which \<open>rst\<close> has arrived on a command topic ends without a restart and leaves the
  state, the restart flag included, as it was.
\<close>

theorem reset_in_update_counterexample:
  "reachable update_mode \<and> otaRunning update_mode \<and> \<not> restart update_mode
   \<and> loop ((quiet 400)\<lparr>inboundMsg := Some (''ibnhouse/light/kitchen/cmd1'', ''rst'')\<rparr>)
        update_mode = Running update_mode"
proof -
  have r: "reachable update_mode"
    using reachable_examples(2) update_mode_eq(2) by (rule reachable.pass)
  have f: "otaRunning update_mode" "\<not> restart update_mode"
    by (simp_all add: update_mode_eq(1) online_eq power_on_def)
  have "loop ((quiet 400)\<lparr>inboundMsg := Some (''ibnhouse/light/kitchen/cmd1'', ''rst'')\<rparr>)
        update_mode = Running update_mode"
    by (subst loop_update_mode)
       (simp_all add: update_mode_eq(1) online_eq power_on_def quiet_def OTA_TIMEOUT_MS_def)
  with r f show ?thesis
    by blast
qed

text \<open>
  Claim C6, amended. The dispatcher answers a payload starting with \<open>rst\<close>, on whatever
  topic and whatever the mode flags are, by setting the restart flag. From normal mode
  and from configuration mode (the portal running or not), a pass of the loop in which
  such a message arrives while WiFi is up and the client is connected hands it to the
  dispatcher and ends in \<open>ESP.restart()\<close>. In update mode the loop does not serve the
  bus: the message is not dispatched, and the pass ends in a restart only if the restart
  flag was set already or the update timeout has expired.
\<close>

theorem reset_command:
  assumes "startsWith payload CMD_RESET"
    and "inboundMsg c = Some (topic, payload)"
  shows "restart (mqttCallback now topic payload s)
       \<and> (\<not> otaRunning s \<and> wifiStatus c \<and> mqttConnected s \<and> \<not> linkLost c
          \<longrightarrow> loop c s = Restarted (stateOf (loop c s)) \<and> restart (stateOf (loop c s)))
       \<and> (otaRunning s
          \<longrightarrow> restart (stateOf (loop c s)) = (restart s \<or> millis c - otaStart s > OTA_TIMEOUT_MS)
              \<and> loop c s = loop (c\<lparr>inboundMsg := None\<rparr>) s)"
proof -
  have cb: "mqttCallback now topic payload s = s\<lparr>restart := True\<rparr>" for now s
    using assms(1) by (rule mqttCallback_reset)
  have a: "loop c s = Restarted (stateOf (loop c s)) \<and> restart (stateOf (loop c s))"
    if "\<not> otaRunning s" "wifiStatus c" "mqttConnected s" "\<not> linkLost c"
    using loop_dispatch [OF that assms(2)] by (simp add: cb Let_def stateOf_def)
  have b: "restart (stateOf (loop c s)) = (restart s \<or> millis c - otaStart s > OTA_TIMEOUT_MS)
      \<and> loop c s = loop (c\<lparr>inboundMsg := None\<rparr>) s"
    if "otaRunning s"
    using that by (simp add: loop_update_mode Let_def stateOf_def)
  have r: "restart (mqttCallback now topic payload s)"
    by (simp add: cb)
  from r a b show ?thesis
    by blast
qed

text \<open>
  \<open>rst\<close> arrives on the command topic of channel 2, at the online device and at the
  device in update mode.
\<close>

theorem reset_command_witness:
  "startsWith ''rst'' CMD_RESET
   \<and> \<not> otaRunning online \<and> mqttConnected online
   \<and> restart (mqttCallback 300 ''ibnhouse/light/kitchen/cmd2'' ''rst'' online)
   \<and> loop ((quiet 300)\<lparr>inboundMsg := Some (''ibnhouse/light/kitchen/cmd2'', ''rst'')\<rparr>) online =
       Restarted (stateOf
         (loop ((quiet 300)\<lparr>inboundMsg := Some (''ibnhouse/light/kitchen/cmd2'', ''rst'')\<rparr>) online))
   \<and> otaRunning update_mode
   \<and> \<not> restart (stateOf
         (loop ((quiet 300)\<lparr>inboundMsg := Some (''ibnhouse/light/kitchen/cmd2'', ''rst'')\<rparr>)
            update_mode))"
proof -
  have pre: "startsWith ''rst'' CMD_RESET" "\<not> otaRunning online" "mqttConnected online"
    "otaRunning update_mode" "\<not> restart update_mode" "otaStart update_mode = 200"
    by (simp_all add: startsWith_def CMD_RESET_def update_mode_eq(1) online_eq power_on_def)
  have c: "inboundMsg ((quiet 300)\<lparr>inboundMsg := Some (''ibnhouse/light/kitchen/cmd2'', ''rst'')\<rparr>) =
      Some (''ibnhouse/light/kitchen/cmd2'', ''rst'')"
    "wifiStatus ((quiet 300)\<lparr>inboundMsg := Some (''ibnhouse/light/kitchen/cmd2'', ''rst'')\<rparr>)"
    "\<not> linkLost ((quiet 300)\<lparr>inboundMsg := Some (''ibnhouse/light/kitchen/cmd2'', ''rst'')\<rparr>)"
    "millis ((quiet 300)\<lparr>inboundMsg := Some (''ibnhouse/light/kitchen/cmd2'', ''rst'')\<rparr>) = 300"
    by (simp_all add: quiet_def)
  note normal = reset_command [OF pre(1) c(1), of 300 online]
  note update = reset_command [OF pre(1) c(1), of 300 update_mode]
  have w1: "restart (mqttCallback 300 ''ibnhouse/light/kitchen/cmd2'' ''rst'' online)"
    using normal by blast
  have w2: "loop ((quiet 300)\<lparr>inboundMsg := Some (''ibnhouse/light/kitchen/cmd2'', ''rst'')\<rparr>) online =
       Restarted (stateOf
         (loop ((quiet 300)\<lparr>inboundMsg := Some (''ibnhouse/light/kitchen/cmd2'', ''rst'')\<rparr>) online))"
    using normal pre(2,3) c(2,3) by blast
  have "restart (stateOf
         (loop ((quiet 300)\<lparr>inboundMsg := Some (''ibnhouse/light/kitchen/cmd2'', ''rst'')\<rparr>)
            update_mode)) =
      (restart update_mode
       \<or> millis ((quiet 300)\<lparr>inboundMsg := Some (''ibnhouse/light/kitchen/cmd2'', ''rst'')\<rparr>)
            - otaStart update_mode > OTA_TIMEOUT_MS)"
    using update pre(4) by blast
  then have w3: "\<not> restart (stateOf
         (loop ((quiet 300)\<lparr>inboundMsg := Some (''ibnhouse/light/kitchen/cmd2'', ''rst'')\<rparr>)
            update_mode))"
    using pre(5,6) c(4) by (simp add: OTA_TIMEOUT_MS_def)
  from pre w1 w2 w3 show ?thesis
    by blast
qed

end
